theory Spec2Isabelle
  imports Main "HOL-Library.Word"
begin

section \<open>The save-load-state example of llama.cpp\<close>

text \<open>
  The program under study is \<^verbatim>\<open>examples/save-load-state/save-load-state.cpp\<close>: one
  function, \<^verbatim>\<open>main\<close>, which evaluates a prompt, captures the engine state into a byte
  buffer, writes the buffer to \<^verbatim>\<open>dump_state.bin\<close>, generates \<^verbatim>\<open>n_predict\<close> tokens,
  frees the engine, creates a second engine, reads the file back, restores the state and
  generates \<^verbatim>\<open>n_predict\<close> tokens again.

  Everything \<^verbatim>\<open>main\<close> calls lives in other translation units (\<^verbatim>\<open>llama.h\<close>,
  \<^verbatim>\<open>common.h\<close>, \<^verbatim>\<open>build-info.h\<close>, the C library). Those functions are parameters of
  the model: a record of functions for the llama library and a record for the host (command
  line parsing, build constants, the behaviour of the file system). A context
  (\<^verbatim>\<open>llama_context *\<close>) is a value of an arbitrary type \<open>'ctx\<close>; a call that mutates the
  context returns the new one. A float is a value of an arbitrary type \<open>'f\<close> with a zero:
  the program only copies floats.
\<close>

subsection \<open>Types\<close>

type_synonym llama_token = int

type_synonym byte = "8 word"

text \<open>The fields of \<^verbatim>\<open>gpt_params\<close> that \<^verbatim>\<open>main\<close> reads or writes.\<close>

record gpt_params =
  seed :: int
  n_threads :: int
  n_predict :: int
  repeat_last_n :: int
  n_ctx :: int
  memory_f16 :: bool
  use_mmap :: bool
  use_mlock :: bool
  model :: string
  prompt :: string

text \<open>The fields of \<^verbatim>\<open>llama_context_params\<close> that \<^verbatim>\<open>main\<close> assigns (lines 34-38).\<close>

record llama_context_params =
  n_ctx_lp :: int
  seed_lp :: int
  f16_kv_lp :: bool
  use_mmap_lp :: bool
  use_mlock_lp :: bool

text \<open>\<^verbatim>\<open>llama_token_data{id, logit, p}\<close> and \<^verbatim>\<open>llama_token_data_array{data, size, sorted}\<close>.\<close>

record 'f llama_token_data =
  id_td :: llama_token
  logit_td :: 'f
  p_td :: 'f

record 'f llama_token_data_array =
  data_arr :: "'f llama_token_data list"
  size_arr :: nat
  sorted_arr :: bool

text \<open>
  The llama library as \<^verbatim>\<open>main\<close> uses it.
  \<^item> \<open>llama_init_from_file\<close> returns \<open>None\<close> for a null pointer.
  \<^item> \<open>llama_tokenize ctx text n_max_tokens add_bos\<close> returns the \<^verbatim>\<open>int\<close> result and the
    tokens it wrote at the start of the caller's buffer.
  \<^item> \<open>llama_eval ctx tokens n_past n_threads\<close> returns the \<^verbatim>\<open>int\<close> result (non-zero on
    failure) and the context after the call; \<^verbatim>\<open>n_tokens\<close> is the length of the list.
  \<^item> \<open>llama_copy_state_data ctx\<close> is the bytes written to the destination buffer; the
    library writes exactly \<open>llama_get_state_size ctx\<close> bytes.
  \<^item> \<open>llama_get_logits ctx\<close> is the memory behind the returned \<^verbatim>\<open>float *\<close>, read by index.
  \<^item> \<open>llama_sample_token ctx candidates\<close> returns the token and the context after the
    call (the sampler advances the generator kept in the context).
  \<^item> \<open>llama_token_to_str ctx token\<close> is the text behind the returned pointer, which is
    taken not to be null.
  \<^item> The other calls read the context and leave it as it is.
  A buffer is a list; a call that fills a caller's buffer returns what it wrote. Memory
  safety of the library's own writes is the library's business and not part of the model.
  Allocation is taken to succeed: \<^verbatim>\<open>std::bad_alloc\<close> is not part of the model.
\<close>

record ('ctx, 'f) llama_api =
  llama_context_default_params :: llama_context_params
  llama_init_from_file :: "string \<Rightarrow> llama_context_params \<Rightarrow> 'ctx option"
  llama_tokenize :: "'ctx \<Rightarrow> string \<Rightarrow> int \<Rightarrow> bool \<Rightarrow> int \<times> llama_token list"
  llama_eval :: "'ctx \<Rightarrow> llama_token list \<Rightarrow> int \<Rightarrow> int \<Rightarrow> int \<times> 'ctx"
  llama_get_state_size :: "'ctx \<Rightarrow> nat"
  llama_copy_state_data :: "'ctx \<Rightarrow> byte list"
  llama_set_state_data :: "'ctx \<Rightarrow> byte list \<Rightarrow> 'ctx"
  llama_get_logits :: "'ctx \<Rightarrow> nat \<Rightarrow> 'f"
  llama_n_vocab :: "'ctx \<Rightarrow> int"
  llama_sample_token :: "'ctx \<Rightarrow> 'f llama_token_data_array \<Rightarrow> llama_token \<times> 'ctx"
  llama_token_to_str :: "'ctx \<Rightarrow> llama_token \<Rightarrow> string"

text \<open>
  The host: the default-constructed \<^verbatim>\<open>gpt_params\<close>, \<^verbatim>\<open>gpt_params_parse\<close> (its
  result and the parameters it leaves), the constants of \<^verbatim>\<open>build-info.h\<close>, and the
  file system. \<open>fopen_wb_ok\<close> and \<open>fopen_rb_ok\<close> say whether the two \<^verbatim>\<open>fopen\<close> calls
  return a stream; \<open>fwrite_limit\<close> is the number of bytes the device accepts before the
  write fails, \<open>fread_limit\<close> the number of bytes it delivers before the read fails.
\<close>

record host =
  gpt_params_default :: gpt_params
  gpt_params_parse :: "string list \<Rightarrow> gpt_params \<Rightarrow> bool \<times> gpt_params"
  BUILD_NUMBER :: int
  BUILD_COMMIT :: string
  fopen_wb_ok :: bool
  fwrite_limit :: nat
  fopen_rb_ok :: bool
  fread_limit :: nat

text \<open>
  How \<^verbatim>\<open>main\<close> ends: it returns a status, or an exception leaves it
  (\<^verbatim>\<open>std::length_error\<close> from a vector of negative size), or it passes a null pointer
  to a function that dereferences it.
\<close>

datatype outcome = Returned int | Aborted | Undefined_behaviour

text \<open>The two context variables of \<^verbatim>\<open>main\<close>.\<close>

datatype which = Ctx | Ctx2

text \<open>
  What \<^verbatim>\<open>main\<close> does to the outside, in order: the lines it prints and the calls it
  makes, with the arguments and results that matter.
\<close>

datatype 'f event =
    Build_info int string
  | Stderr string
  | Stdout string
  | Llama_init_from_file which
  | Llama_tokenize int
  | Llama_eval which "llama_token list" int int
  | Llama_get_state_size which nat
  | Fopen_wb bool
  | Llama_copy_state_data "byte list"
  | Fwrite nat nat
  | Fclose
  | Llama_sample_token which "'f llama_token_data_array" llama_token
  | Llama_free
  | Fopen_rb bool
  | Fread nat nat
  | Llama_set_state_data "byte list"

record 'f result =
  status :: outcome
  trace :: "'f event list"

text \<open>
  The local variables of \<^verbatim>\<open>main\<close> that are live from the checkpoint (line 78) on,
  together with the events so far and the contents of \<^verbatim>\<open>dump_state.bin\<close>.
  \<^verbatim>\<open>n_past\<close> and the loop counters are C \<^verbatim>\<open>int\<close>s; the model uses \<open>int\<close>, which
  is exact as long as \<^verbatim>\<open>n_prompt_tokens + n_predict\<close> stays below \<open>2 ^ 31\<close>.
\<close>

record 'f harness =
  log :: "'f event list"
  n_past :: int
  last_n_tokens_data :: "llama_token list"
  state_size :: nat
  state_mem :: "byte list"
  dump_state_bin :: "byte list"
  last_n_tokens_data_saved :: "llama_token list"
  n_past_saved :: int

subsection \<open>Helpers\<close>

definition newline :: string where
  "newline = [CHR 0x0A]"

text \<open>Writing \<open>new\<close> at the start of a buffer: the rest of the buffer keeps its contents.\<close>

definition overwrite :: "'a list \<Rightarrow> 'a list \<Rightarrow> 'a list" where
  "overwrite new buf = new @ drop (length new) buf"

subsection \<open>The candidate loop (lines 90-92 and 146-148)\<close>

function populate_candidates ::
  "(nat \<Rightarrow> 'f::zero) \<Rightarrow> int \<Rightarrow> llama_token \<Rightarrow> 'f llama_token_data list \<Rightarrow> 'f llama_token_data list"
where
  "populate_candidates logits n_vocab token_id candidates =
     (if token_id < n_vocab
      then populate_candidates logits n_vocab (token_id + 1)
             (candidates @ [\<lparr>id_td = token_id, logit_td = logits (nat token_id), p_td = 0\<rparr>])
      else candidates)"
  by pat_completeness auto
termination
  by (relation "measure (\<lambda>(logits, n_vocab, token_id, candidates). nat (n_vocab - token_id))") auto

declare populate_candidates.simps [simp del]

subsection \<open>One generation step (lines 83-106 and 141-159)\<close>

text \<open>
  The two loop bodies are the same text with \<^verbatim>\<open>ctx\<close> replaced by \<^verbatim>\<open>ctx2\<close>;
  \<open>w\<close> says which of the two is running. \<^verbatim>\<open>candidates.reserve(n_vocab)\<close> (lines 87
  and 145) converts \<^verbatim>\<open>n_vocab\<close> to an unsigned size: for a negative value it throws
  \<^verbatim>\<open>std::length_error\<close>, as the vectors of lines 42 and 48 do, and nothing has been
  sampled or printed in that step.
\<close>

definition generation_step ::
  "('ctx, 'f::zero) llama_api \<Rightarrow> gpt_params \<Rightarrow> which \<Rightarrow> 'ctx \<times> 'f harness
     \<Rightarrow> 'f result + 'ctx \<times> 'f harness"
where
  "generation_step api params w cs =
     (let (ctx, s) = cs;
          logits = llama_get_logits api ctx;
          n_vocab = llama_n_vocab api ctx
      in if n_vocab < 0 then Inl \<lparr>status = Aborted, trace = log s\<rparr>
         else
           let candidates = populate_candidates logits n_vocab 0 [];
               candidates_p =
                 \<lparr>data_arr = candidates, size_arr = length candidates, sorted_arr = False\<rparr>;
               (next_token, ctx) = llama_sample_token api ctx candidates_p;
               next_token_str = llama_token_to_str api ctx next_token;
               s = s\<lparr>last_n_tokens_data := last_n_tokens_data s @ [next_token],
                     log := log s @ [Llama_sample_token w candidates_p next_token,
                                     Stdout next_token_str]\<rparr>;
               (ret, ctx) = llama_eval api ctx [next_token] (n_past s) (n_threads params);
               s = s\<lparr>log := log s @ [Llama_eval w [next_token] (n_past s) ret]\<rparr>
           in if ret \<noteq> 0
              then Inl \<lparr>status = Returned 1,
                        trace = log s @ [Stderr (newline @ ''main : failed to evaluate'' @ newline)]\<rparr>
              else Inr (ctx, s\<lparr>n_past := n_past s + 1\<rparr>))"

subsection \<open>The generation loop (lines 82 and 140)\<close>

function generation_loop ::
  "('ctx, 'f::zero) llama_api \<Rightarrow> gpt_params \<Rightarrow> which \<Rightarrow> int \<Rightarrow> 'ctx \<times> 'f harness
     \<Rightarrow> 'f result + 'ctx \<times> 'f harness"
where
  "generation_loop api params w i cs =
     (if i < n_predict params
      then (case generation_step api params w cs of
              Inl r \<Rightarrow> Inl r
            | Inr cs' \<Rightarrow> generation_loop api params w (i + 1) cs')
      else Inr cs)"
  by pat_completeness auto
termination
  by (relation "measure (\<lambda>(api, params, w, i, cs). nat (n_predict params - i))") auto

declare generation_loop.simps [simp del]

subsection \<open>The phases of main\<close>

text \<open>Lines 13-45: parameters, the history window, the first context.\<close>

definition main_setup ::
  "host \<Rightarrow> ('ctx, 'f) llama_api \<Rightarrow> string list
     \<Rightarrow> 'f result + gpt_params \<times> llama_context_params \<times> 'f event list \<times> int \<times> llama_token list \<times> 'ctx option"
where
  "main_setup h api argv =
     (let params = (gpt_params_default h)
            \<lparr>seed := 42, n_threads := 4, repeat_last_n := 64, prompt := ''The quick brown fox''\<rparr>;
          (ok, params) = gpt_params_parse h argv params
      in if \<not> ok then Inl \<lparr>status = Returned 1, trace = []\<rparr>
         else
           let tr = [Build_info (BUILD_NUMBER h) (BUILD_COMMIT h)];
               params = (if n_predict params < 0 then params\<lparr>n_predict := 16\<rparr> else params);
               lparams = (llama_context_default_params api)
                 \<lparr>n_ctx_lp := n_ctx params, seed_lp := seed params, f16_kv_lp := memory_f16 params,
                  use_mmap_lp := use_mmap params, use_mlock_lp := use_mlock params\<rparr>;
               n_past = 0
           in if repeat_last_n params < 0 then Inl \<lparr>status = Aborted, trace = tr\<rparr>
              else
                let last_n_tokens_data = replicate (nat (repeat_last_n params)) 0;
                    ctx = llama_init_from_file api (model params) lparams
                in Inr (params, lparams, tr @ [Llama_init_from_file Ctx], n_past,
                        last_n_tokens_data, ctx))"

text \<open>Lines 47-62: tokenize the prompt, evaluate it, record it.\<close>

definition main_prompt ::
  "('ctx, 'f) llama_api \<Rightarrow> gpt_params \<Rightarrow> 'f event list \<times> int \<times> llama_token list \<times> 'ctx option
     \<Rightarrow> 'f result + 'f event list \<times> int \<times> llama_token list \<times> 'ctx"
where
  "main_prompt api params v =
     (let (tr, n_past, last_n_tokens_data, ctx) = v
      in if n_ctx params < 0 then Inl \<lparr>status = Aborted, trace = tr\<rparr>
         else
           let tokens = replicate (nat (n_ctx params)) 0
           in case ctx of
                None \<Rightarrow> Inl \<lparr>status = Undefined_behaviour, trace = tr\<rparr>
              | Some ctx \<Rightarrow>
                 let (n_prompt_tokens, written) =
                       llama_tokenize api ctx (prompt params) (int (length tokens)) True;
                     tokens = overwrite written tokens;
                     tr = tr @ [Llama_tokenize n_prompt_tokens]
                 in if n_prompt_tokens < 1
                    then Inl \<lparr>status = Returned 1,
                              trace = tr @ [Stderr (''main : failed to tokenize prompt'' @ newline)]\<rparr>
                    else
                      let (ret, ctx) = llama_eval api ctx (take (nat n_prompt_tokens) tokens)
                                         n_past (n_threads params);
                          tr = tr @ [Llama_eval Ctx (take (nat n_prompt_tokens) tokens) n_past ret];
                          last_n_tokens_data =
                            last_n_tokens_data @ take (nat n_prompt_tokens) tokens;
                          n_past = n_past + n_prompt_tokens
                      in Inr (tr, n_past, last_n_tokens_data, ctx))"

text \<open>Lines 64-78: capture the state, write it to the file, copy history and position.\<close>

definition main_save ::
  "host \<Rightarrow> ('ctx, 'f) llama_api \<Rightarrow> 'f event list \<times> int \<times> llama_token list \<times> 'ctx
     \<Rightarrow> 'f result + 'ctx \<times> 'f harness"
where
  "main_save h api v =
     (let (tr, n_past, last_n_tokens_data, ctx) = v;
          state_size = llama_get_state_size api ctx;
          tr = tr @ [Llama_get_state_size Ctx state_size];
          fp_write = fopen_wb_ok h;
          tr = tr @ [Fopen_wb fp_write];
          state_mem = llama_copy_state_data api ctx;
          tr = tr @ [Llama_copy_state_data state_mem]
      in if \<not> fp_write then Inl \<lparr>status = Undefined_behaviour, trace = tr\<rparr>
         else
           let written = min state_size (fwrite_limit h);
               file = take written state_mem;
               tr = tr @ [Fwrite state_size written, Fclose]
           in Inr (ctx,
                   \<lparr>log = tr, n_past = n_past, last_n_tokens_data = last_n_tokens_data,
                    state_size = state_size, state_mem = state_mem, dump_state_bin = file,
                    last_n_tokens_data_saved = last_n_tokens_data, n_past_saved = n_past\<rparr>))"

text \<open>Lines 80-109: the first prediction run.\<close>

definition first_run ::
  "('ctx, 'f::zero) llama_api \<Rightarrow> gpt_params \<Rightarrow> 'ctx \<times> 'f harness \<Rightarrow> 'f result + 'ctx \<times> 'f harness"
where
  "first_run api params cs =
     (let (ctx, s) = cs;
          s = s\<lparr>log := log s @ [Stdout (newline @ prompt params)]\<rparr>
      in case generation_loop api params Ctx 0 (ctx, s) of
           Inl r \<Rightarrow> Inl r
         | Inr (ctx, s) \<Rightarrow> Inr (ctx, s\<lparr>log := log s @ [Stdout (newline @ newline)]\<rparr>))"

text \<open>
  Lines 111-137: free the first context, create the second, check the size, read the
  file, restore the state, reset history and position.
\<close>

definition main_load ::
  "host \<Rightarrow> ('ctx, 'f) llama_api \<Rightarrow> gpt_params \<Rightarrow> llama_context_params \<Rightarrow> 'ctx \<times> 'f harness
     \<Rightarrow> 'f result + 'ctx \<times> 'f harness"
where
  "main_load h api params lparams cs =
     (let (ctx, s) = cs;
          tr = log s @ [Llama_free];
          ctx2 = llama_init_from_file api (model params) lparams;
          tr = tr @ [Llama_init_from_file Ctx2];
          fp_read = fopen_rb_ok h;
          tr = tr @ [Fopen_rb fp_read]
      in case ctx2 of
           None \<Rightarrow> Inl \<lparr>status = Undefined_behaviour, trace = tr\<rparr>
         | Some ctx2 \<Rightarrow>
            let tr = tr @ [Llama_get_state_size Ctx2 (llama_get_state_size api ctx2)]
            in if state_size s \<noteq> llama_get_state_size api ctx2
               then Inl \<lparr>status = Returned 1,
                         trace = tr @ [Stderr (newline @ ''main : failed to validate state size'' @ newline)]\<rparr>
               else if \<not> fp_read then Inl \<lparr>status = Undefined_behaviour, trace = tr\<rparr>
               else
                 let ret = min (state_size s) (min (length (dump_state_bin s)) (fread_limit h));
                     state_mem = overwrite (take ret (dump_state_bin s)) (state_mem s);
                     tr = tr @ [Fread (state_size s) ret]
                 in if ret \<noteq> state_size s
                    then Inl \<lparr>status = Returned 1,
                              trace = tr @ [Stderr (newline @ ''main : failed to read state'' @ newline)]\<rparr>
                    else
                      let ctx2 = llama_set_state_data api ctx2 state_mem;
                          tr = tr @ [Llama_set_state_data state_mem, Fclose]
                      in Inr (ctx2,
                              s\<lparr>log := tr, state_mem := state_mem,
                                last_n_tokens_data := last_n_tokens_data_saved s,
                                n_past := n_past_saved s\<rparr>))"

text \<open>Lines 139-165: the second prediction run and the normal exit.\<close>

definition second_run ::
  "('ctx, 'f::zero) llama_api \<Rightarrow> gpt_params \<Rightarrow> 'ctx \<times> 'f harness \<Rightarrow> 'f result"
where
  "second_run api params cs =
     (case generation_loop api params Ctx2 0 cs of
        Inl r \<Rightarrow> r
      | Inr (ctx2, s) \<Rightarrow> \<lparr>status = Returned 0, trace = log s @ [Stdout (newline @ newline)]\<rparr>)"

subsection \<open>main\<close>

text \<open>The program up to the checkpoint (line 78).\<close>

definition main_until_checkpoint ::
  "host \<Rightarrow> ('ctx, 'f::zero) llama_api \<Rightarrow> string list
     \<Rightarrow> 'f result + gpt_params \<times> llama_context_params \<times> 'ctx \<times> 'f harness"
where
  "main_until_checkpoint h api argv =
     (case main_setup h api argv of
        Inl r \<Rightarrow> Inl r
      | Inr (params, lparams, v) \<Rightarrow>
         (case main_prompt api params v of
            Inl r \<Rightarrow> Inl r
          | Inr v' \<Rightarrow>
             (case main_save h api v' of
                Inl r \<Rightarrow> Inl r
              | Inr cs \<Rightarrow> Inr (params, lparams, cs))))"

text \<open>The program up to the end of the first run (line 109).\<close>

definition main_until_first_run ::
  "host \<Rightarrow> ('ctx, 'f::zero) llama_api \<Rightarrow> string list
     \<Rightarrow> 'f result + gpt_params \<times> llama_context_params \<times> 'ctx \<times> 'f harness"
where
  "main_until_first_run h api argv =
     (case main_until_checkpoint h api argv of
        Inl r \<Rightarrow> Inl r
      | Inr (params, lparams, cs) \<Rightarrow>
         (case first_run api params cs of
            Inl r \<Rightarrow> Inl r
          | Inr cs' \<Rightarrow> Inr (params, lparams, cs')))"

text \<open>The program up to the restore point (line 137).\<close>

definition main_until_restore ::
  "host \<Rightarrow> ('ctx, 'f::zero) llama_api \<Rightarrow> string list
     \<Rightarrow> 'f result + gpt_params \<times> llama_context_params \<times> 'ctx \<times> 'f harness"
where
  "main_until_restore h api argv =
     (case main_until_first_run h api argv of
        Inl r \<Rightarrow> Inl r
      | Inr (params, lparams, cs) \<Rightarrow>
         (case main_load h api params lparams cs of
            Inl r \<Rightarrow> Inl r
          | Inr cs' \<Rightarrow> Inr (params, lparams, cs')))"

definition main :: "host \<Rightarrow> ('ctx, 'f::zero) llama_api \<Rightarrow> string list \<Rightarrow> 'f result" where
  "main h api argv =
     (case main_until_restore h api argv of
        Inl r \<Rightarrow> r
      | Inr (params, lparams, cs) \<Rightarrow> second_run api params cs)"

section \<open>Observations on a run\<close>

text \<open>The events of a phase's result, whether it ended the program or not.\<close>

definition trace_of :: "'f result + 'ctx \<times> 'f harness \<Rightarrow> 'f event list" where
  "trace_of x = (case x of Inl r \<Rightarrow> trace r | Inr (ctx, s) \<Rightarrow> log s)"

text \<open>
  The tokens sampled on one context, in order: \<open>sampled Ctx\<close> of the trace of a run is
  the sequence S1 of the first prediction run, \<open>sampled Ctx2\<close> the sequence S2 of the
  second.
\<close>

fun sampled :: "which \<Rightarrow> 'f event list \<Rightarrow> llama_token list" where
  "sampled w [] = []"
| "sampled w (Llama_sample_token w' c t # es) = (if w' = w then t # sampled w es else sampled w es)"
| "sampled w (e # es) = sampled w es"

text \<open>The evaluate calls on one context: tokens, position passed, result.\<close>

fun evals :: "which \<Rightarrow> 'f event list \<Rightarrow> (llama_token list \<times> int \<times> int) list" where
  "evals w [] = []"
| "evals w (Llama_eval w' toks n ret # es) =
     (if w' = w then (toks, n, ret) # evals w es else evals w es)"
| "evals w (e # es) = evals w es"

text \<open>The lines written to the error stream after the build line.\<close>

fun diagnostics :: "'f event list \<Rightarrow> string list" where
  "diagnostics [] = []"
| "diagnostics (Stderr l # es) = l # diagnostics es"
| "diagnostics (e # es) = diagnostics es"


text \<open>
  The events that can occur up to the end of the first prediction run: everything except
  the calls of lines 112-130 and the calls on the second context.
\<close>

fun first_half_event :: "'f event \<Rightarrow> bool" where
  "first_half_event (Llama_init_from_file w) = (w = Ctx)"
| "first_half_event (Llama_eval w toks n ret) = (w = Ctx)"
| "first_half_event (Llama_get_state_size w n) = (w = Ctx)"
| "first_half_event (Llama_sample_token w c t) = (w = Ctx)"
| "first_half_event Llama_free = False"
| "first_half_event (Fopen_rb ok) = False"
| "first_half_event (Fread n k) = False"
| "first_half_event (Llama_set_state_data b) = False"
| "first_half_event e = True"

text \<open>The events of a prediction run on context \<open>w\<close>.\<close>

fun run_event :: "which \<Rightarrow> 'f event \<Rightarrow> bool" where
  "run_event w (Llama_sample_token w' c t) = (w' = w)"
| "run_event w (Llama_eval w' toks n ret) = (w' = w)"
| "run_event w (Stdout l) = True"
| "run_event w (Stderr l) = True"
| "run_event w e = False"

text \<open>
  The token history and the position at the end of a phase of \<^verbatim>\<open>main\<close>, with the
  checkpoint's copies of both: the variables \<^verbatim>\<open>last_n_tokens_data\<close>,
  \<^verbatim>\<open>n_past\<close>, \<^verbatim>\<open>last_n_tokens_data_saved\<close> and \<^verbatim>\<open>n_past_saved\<close>.
\<close>

definition tokens_at ::
  "(host \<Rightarrow> ('ctx, 'f) llama_api \<Rightarrow> string list
      \<Rightarrow> 'f result + gpt_params \<times> llama_context_params \<times> 'ctx \<times> 'f harness)
   \<Rightarrow> host \<Rightarrow> ('ctx, 'f) llama_api \<Rightarrow> string list
   \<Rightarrow> (llama_token list \<times> int \<times> llama_token list \<times> int) option"
where
  "tokens_at phase h api argv =
     (case phase h api argv of
        Inl r \<Rightarrow> None
      | Inr (params, lparams, ctx, s) \<Rightarrow>
          Some (last_n_tokens_data s, n_past s, last_n_tokens_data_saved s, n_past_saved s))"

text \<open>
  The parameters as \<^verbatim>\<open>gpt_params_parse\<close> leaves them (line 20), and the number of
  predictions after line 30.
\<close>

definition parsed_params :: "host \<Rightarrow> string list \<Rightarrow> gpt_params" where
  "parsed_params h argv =
     snd (gpt_params_parse h argv
            ((gpt_params_default h)
               \<lparr>seed := 42, n_threads := 4, repeat_last_n := 64, prompt := ''The quick brown fox''\<rparr>))"

definition effective_n_predict :: "host \<Rightarrow> string list \<Rightarrow> int" where
  "effective_n_predict h argv =
     (if n_predict (parsed_params h argv) < 0 then 16 else n_predict (parsed_params h argv))"

subsection \<open>The contract of the engine\<close>

text \<open>
  Modelled from the spec: the llama library is not among the sources, and what the
  specification says of it is that the engine is deterministic given its internal state
  and its inputs, and that after a restore the context behaves as the one that was
  captured.
  \<open>R a b\<close> reads: the contexts \<open>a\<close> and \<open>b\<close> cannot be told apart through the calls
  \<^verbatim>\<open>main\<close> makes. The engine respects \<open>R\<close> when related contexts report the same
  vocabulary size and logits, sample the same token from the same candidates, evaluate
  with the same result, and stay related; and when restoring a captured state into a
  context of the same state size gives a context related to the captured one.
\<close>

definition engine_contract :: "('ctx, 'f) llama_api \<Rightarrow> ('ctx \<Rightarrow> 'ctx \<Rightarrow> bool) \<Rightarrow> bool" where
  "engine_contract api R \<longleftrightarrow>
     (\<forall>a b. R a b \<longrightarrow>
        llama_n_vocab api a = llama_n_vocab api b
        \<and> (\<forall>i < nat (llama_n_vocab api a). llama_get_logits api a i = llama_get_logits api b i)
        \<and> (\<forall>cands. fst (llama_sample_token api a cands) = fst (llama_sample_token api b cands)
                   \<and> R (snd (llama_sample_token api a cands)) (snd (llama_sample_token api b cands)))
        \<and> (\<forall>toks n_past n_threads.
               fst (llama_eval api a toks n_past n_threads) = fst (llama_eval api b toks n_past n_threads)
               \<and> R (snd (llama_eval api a toks n_past n_threads))
                    (snd (llama_eval api b toks n_past n_threads))))
     \<and> (\<forall>c c0. llama_get_state_size api c0 = llama_get_state_size api c
            \<longrightarrow> R c (llama_set_state_data api c0 (llama_copy_state_data api c)))"

subsection \<open>One step in closed form\<close>

text \<open>
  The candidate array a step builds from a context, the token it samples, the result of
  its evaluate call, the context it leaves and the events it logs. The lemma
  \<open>generation_step_eq\<close> below shows that \<open>generation_step\<close> computes exactly these.
\<close>

definition candidates_of :: "('ctx, 'f::zero) llama_api \<Rightarrow> 'ctx \<Rightarrow> 'f llama_token_data_array" where
  "candidates_of api ctx =
     \<lparr>data_arr = map (\<lambda>i. \<lparr>id_td = int i, logit_td = llama_get_logits api ctx i, p_td = 0\<rparr>)
                   [0..<nat (llama_n_vocab api ctx)],
      size_arr = nat (llama_n_vocab api ctx), sorted_arr = False\<rparr>"

definition step_token :: "('ctx, 'f::zero) llama_api \<Rightarrow> 'ctx \<Rightarrow> llama_token" where
  "step_token api ctx = fst (llama_sample_token api ctx (candidates_of api ctx))"

definition step_ret :: "('ctx, 'f::zero) llama_api \<Rightarrow> gpt_params \<Rightarrow> 'ctx \<Rightarrow> int \<Rightarrow> int" where
  "step_ret api params ctx n =
     fst (llama_eval api (snd (llama_sample_token api ctx (candidates_of api ctx)))
            [step_token api ctx] n (n_threads params))"

definition step_ctx :: "('ctx, 'f::zero) llama_api \<Rightarrow> gpt_params \<Rightarrow> 'ctx \<Rightarrow> int \<Rightarrow> 'ctx" where
  "step_ctx api params ctx n =
     snd (llama_eval api (snd (llama_sample_token api ctx (candidates_of api ctx)))
            [step_token api ctx] n (n_threads params))"

definition step_events ::
  "('ctx, 'f::zero) llama_api \<Rightarrow> gpt_params \<Rightarrow> which \<Rightarrow> 'ctx \<Rightarrow> int \<Rightarrow> 'f event list"
where
  "step_events api params w ctx n =
     [Llama_sample_token w (candidates_of api ctx) (step_token api ctx),
      Stdout (llama_token_to_str api (snd (llama_sample_token api ctx (candidates_of api ctx)))
                (step_token api ctx)),
      Llama_eval w [step_token api ctx] n (step_ret api params ctx n)]"

text \<open>The variables a prediction run leaves alone.\<close>

definition frame_eq :: "'f harness \<Rightarrow> 'f harness \<Rightarrow> bool" where
  "frame_eq s s' \<longleftrightarrow>
     state_size s' = state_size s \<and> state_mem s' = state_mem s
     \<and> dump_state_bin s' = dump_state_bin s
     \<and> last_n_tokens_data_saved s' = last_n_tokens_data_saved s
     \<and> n_past_saved s' = n_past_saved s"

section \<open>A small engine and a small host\<close>

text \<open>
  An engine to run the program on: the context is one byte, evaluation mixes the tokens
  and the position into it, the state is that byte, the vocabulary has three tokens and
  the sampler is greedy (the first candidate of greatest score).
\<close>

fun best_of :: "int llama_token_data \<Rightarrow> int llama_token_data list \<Rightarrow> int llama_token_data" where
  "best_of b [] = b"
| "best_of b (c # cs) = best_of (if logit_td b < logit_td c then c else b) cs"

definition greedy :: "int llama_token_data_array \<Rightarrow> llama_token" where
  "greedy candidates = (case data_arr candidates of [] \<Rightarrow> 0 | c # cs \<Rightarrow> id_td (best_of c cs))"

definition toy_api :: "(byte, int) llama_api" where
  "toy_api =
     \<lparr>llama_context_default_params =
        \<lparr>n_ctx_lp = 512, seed_lp = 0, f16_kv_lp = True, use_mmap_lp = True, use_mlock_lp = False\<rparr>,
      llama_init_from_file = (\<lambda>path lparams. Some 0),
      llama_tokenize = (\<lambda>ctx text n_max add_bos. if 2 \<le> n_max then (2, [1, 7]) else (- 2, [])),
      llama_eval = (\<lambda>ctx toks n_past n_threads.
                      (0, 3 * ctx + of_int (sum_list toks) + of_int n_past)),
      llama_get_state_size = (\<lambda>ctx. 1),
      llama_copy_state_data = (\<lambda>ctx. [ctx]),
      llama_set_state_data = (\<lambda>ctx bs. case bs of [] \<Rightarrow> ctx | b # _ \<Rightarrow> b),
      llama_get_logits = (\<lambda>ctx i. int ((unat ctx + 2 * i) mod 3)),
      llama_n_vocab = (\<lambda>ctx. 3),
      llama_sample_token = (\<lambda>ctx candidates. (greedy candidates, ctx)),
      llama_token_to_str = (\<lambda>ctx t. if t = 0 then ''a'' else if t = 1 then ''b'' else ''c'')\<rparr>"

text \<open>A host on which everything succeeds: three predictions, a context of eight tokens.\<close>

definition toy_host :: host where
  "toy_host =
     \<lparr>gpt_params_default =
        \<lparr>seed = - 1, n_threads = 1, n_predict = - 1, repeat_last_n = 64, n_ctx = 512,
         memory_f16 = True, use_mmap = True, use_mlock = False,
         model = ''models/7B/ggml-model.bin'', prompt = []\<rparr>,
      gpt_params_parse =
        (\<lambda>argv params. (True, params\<lparr>n_predict := 3, repeat_last_n := 2, n_ctx := 8\<rparr>)),
      BUILD_NUMBER = 0,
      BUILD_COMMIT = ''unknown'',
      fopen_wb_ok = True,
      fwrite_limit = 4096,
      fopen_rb_ok = True,
      fread_limit = 4096\<rparr>"

text \<open>
  Variants. An engine whose state size differs between the evaluated first context and
  the fresh second one; an engine whose restore leaves the context as it was; an engine
  whose evaluate call fails on more than one token, that is, on the prompt.
\<close>

definition drift_api :: "(byte, int) llama_api" where
  "drift_api =
     toy_api\<lparr>llama_get_state_size := (\<lambda>ctx. if ctx = 0 then 1 else 2),
             llama_copy_state_data := (\<lambda>ctx. if ctx = 0 then [ctx] else [ctx, 0])\<rparr>"

definition amnesic_api :: "(byte, int) llama_api" where
  "amnesic_api = toy_api\<lparr>llama_set_state_data := (\<lambda>ctx bs. ctx)\<rparr>"

definition prompt_fail_api :: "(byte, int) llama_api" where
  "prompt_fail_api =
     toy_api\<lparr>llama_eval := (\<lambda>ctx toks n_past n_threads.
                 (if 1 < length toks then 1 else 0,
                  3 * ctx + of_int (sum_list toks) + of_int n_past))\<rparr>"

text \<open>
  Hosts: a device that accepts no byte on write, a device that delivers no byte on read,
  a file that cannot be opened for writing, a command line with \<^verbatim>\<open>n_predict = 0\<close>, and
  one that leaves \<^verbatim>\<open>n_predict\<close> at its default of \<open>-1\<close>.
\<close>

definition full_disk_host :: host where
  "full_disk_host = toy_host\<lparr>fwrite_limit := 0\<rparr>"

definition bad_read_host :: host where
  "bad_read_host = toy_host\<lparr>fread_limit := 0\<rparr>"

definition no_write_host :: host where
  "no_write_host = toy_host\<lparr>fopen_wb_ok := False\<rparr>"

definition zero_predict_host :: host where
  "zero_predict_host =
     toy_host\<lparr>gpt_params_parse :=
       (\<lambda>argv params. (True, params\<lparr>n_predict := 0, repeat_last_n := 2, n_ctx := 8\<rparr>))\<rparr>"

definition default_predict_host :: host where
  "default_predict_host =
     toy_host\<lparr>gpt_params_parse :=
       (\<lambda>argv params. (True, params\<lparr>repeat_last_n := 2, n_ctx := 8\<rparr>))\<rparr>"

text \<open>An engine whose tokenizer finds no token in the prompt.\<close>

definition mute_api :: "(byte, int) llama_api" where
  "mute_api = toy_api\<lparr>llama_tokenize := (\<lambda>ctx text n_max add_bos. (0, []))\<rparr>"

text \<open>
  An engine whose restore leaves the context in a state in which it reports a negative
  vocabulary size.
\<close>

definition vocab_loss_api :: "(byte, int) llama_api" where
  "vocab_loss_api =
     toy_api\<lparr>llama_set_state_data := (\<lambda>ctx bs. 1),
             llama_n_vocab := (\<lambda>ctx. if ctx = 1 then - 1 else 3)\<rparr>"

text \<open>
  The parameters of the small hosts after line 30, for \<^verbatim>\<open>n_predict = n\<close>, the context
  parameters of line 38, and the variables of \<^verbatim>\<open>main\<close> at the checkpoint on the small
  engine.
\<close>

definition toy_params :: "int \<Rightarrow> gpt_params" where
  "toy_params n =
     \<lparr>seed = 42, n_threads = 4, n_predict = n, repeat_last_n = 2, n_ctx = 8,
      memory_f16 = True, use_mmap = True, use_mlock = False,
      model = ''models/7B/ggml-model.bin'', prompt = ''The quick brown fox''\<rparr>"


definition toy_checkpoint :: "int harness" where
  "toy_checkpoint =
     \<lparr>log = [Build_info 0 ''unknown'', Llama_init_from_file Ctx, Llama_tokenize 2,
             Llama_eval Ctx [1, 7] 0 0, Llama_get_state_size Ctx 1, Fopen_wb True,
             Llama_copy_state_data [8], Fwrite 1 1, Fclose],
      n_past = 2, last_n_tokens_data = [0, 0, 1, 7], state_size = 1, state_mem = [8],
      dump_state_bin = [8], last_n_tokens_data_saved = [0, 0, 1, 7], n_past_saved = 2\<rparr>"

section \<open>Properties of the candidate loop\<close>

lemma populate_candidates_acc:
  "0 \<le> token_id \<Longrightarrow>
   populate_candidates logits n_vocab token_id candidates =
     candidates @ map (\<lambda>i. \<lparr>id_td = int i, logit_td = logits i, p_td = 0\<rparr>) [nat token_id..<nat n_vocab]"
proof (induction logits n_vocab token_id candidates rule: populate_candidates.induct)
  case (1 logits n_vocab token_id candidates)
  let ?f = "\<lambda>i. \<lparr>id_td = int i, logit_td = logits i, p_td = 0\<rparr>"
  show ?case
  proof (cases "token_id < n_vocab")
    case True
    have suc: "Suc (nat token_id) = nat (token_id + 1)"
      using "1.prems" by simp
    have "map ?f [nat token_id..<nat n_vocab] = ?f (nat token_id) # map ?f [Suc (nat token_id)..<nat n_vocab]"
      using True "1.prems" by (subst upt_rec) simp
    then have up: "map ?f [nat token_id..<nat n_vocab] = ?f (nat token_id) # map ?f [nat (token_id + 1)..<nat n_vocab]"
      by (simp only: suc)
    have "populate_candidates logits n_vocab token_id candidates =
          populate_candidates logits n_vocab (token_id + 1)
            (candidates @ [\<lparr>id_td = token_id, logit_td = logits (nat token_id), p_td = 0\<rparr>])"
      using True by (subst populate_candidates.simps) simp
    also have "\<dots> = (candidates @ [\<lparr>id_td = token_id, logit_td = logits (nat token_id), p_td = 0\<rparr>])
                       @ map ?f [nat (token_id + 1)..<nat n_vocab]"
      using True "1.prems" by (intro "1.IH") simp_all
    also have "\<dots> = candidates @ map ?f [nat token_id..<nat n_vocab]"
      using "1.prems" by (simp only: up append_assoc append_Cons append_Nil int_nat_eq if_True)
    finally show ?thesis .
  next
    case False
    with "1.prems" show ?thesis
      by (subst populate_candidates.simps) simp
  qed
qed

section \<open>Steps, loops and their traces\<close>

lemma sampled_append [simp]: "sampled w (xs @ ys) = sampled w xs @ sampled w ys"
  by (induction w xs rule: sampled.induct) simp_all

lemma evals_append [simp]: "evals w (xs @ ys) = evals w xs @ evals w ys"
  by (induction w xs rule: evals.induct) simp_all

lemma diagnostics_append [simp]: "diagnostics (xs @ ys) = diagnostics xs @ diagnostics ys"
  by (induction xs rule: diagnostics.induct) simp_all

lemma generation_step_eq:
  "generation_step api params w (ctx, s) =
     (if llama_n_vocab api ctx < 0 then Inl \<lparr>status = Aborted, trace = log s\<rparr>
      else if step_ret api params ctx (n_past s) \<noteq> 0
      then Inl \<lparr>status = Returned 1,
                trace = log s @ step_events api params w ctx (n_past s)
                          @ [Stderr (newline @ ''main : failed to evaluate'' @ newline)]\<rparr>
      else Inr (step_ctx api params ctx (n_past s),
                s\<lparr>log := log s @ step_events api params w ctx (n_past s),
                  last_n_tokens_data := last_n_tokens_data s @ [step_token api ctx],
                  n_past := n_past s + 1\<rparr>))"
  by (simp add: generation_step_def populate_candidates_acc candidates_of_def step_events_def
      step_token_def step_ret_def step_ctx_def Let_def split: prod.splits)

lemma step_events_props:
  "list_all (run_event w) (step_events api params w ctx n)"
  "diagnostics (step_events api params w ctx n) = []"
  "sampled w (step_events api params w ctx n) = [step_token api ctx]"
  "evals w (step_events api params w ctx n) = [([step_token api ctx], n, step_ret api params ctx n)]"
  by (simp_all add: step_events_def step_token_def step_ret_def Let_def)


lemma generation_loop_unfold_True:
  "i < n_predict params \<Longrightarrow>
   generation_loop api params w i cs =
     (case generation_step api params w cs of
        Inl r \<Rightarrow> Inl r
      | Inr cs' \<Rightarrow> generation_loop api params w (i + 1) cs')"
  by (subst generation_loop.simps) simp

lemma generation_loop_unfold_False:
  "\<not> i < n_predict params \<Longrightarrow> generation_loop api params w i cs = Inr cs"
  by (subst generation_loop.simps) simp

lemma generation_loop_Inr:
  "generation_loop api params w i cs = Inr cs' \<Longrightarrow>
   \<exists>evs. log (snd cs') = log (snd cs) @ evs
        \<and> list_all (run_event w) evs
        \<and> diagnostics evs = []
        \<and> list_all (\<lambda>e. snd (snd e) = 0) (evals w evs)
        \<and> length (sampled w evs) = nat (n_predict params - i)
        \<and> last_n_tokens_data (snd cs') = last_n_tokens_data (snd cs) @ sampled w evs
        \<and> n_past (snd cs') = n_past (snd cs) + int (length (sampled w evs))
        \<and> frame_eq (snd cs) (snd cs')"
proof (induction api params w i cs rule: generation_loop.induct)
  case (1 api params w i cs)
  obtain ctx s where cs: "cs = (ctx, s)" by (cases cs)
  show ?case
  proof (cases "i < n_predict params")
    case False
    with "1.prems" have "cs' = cs"
      by (simp add: generation_loop_unfold_False)
    then show ?thesis
      using False by (simp add: frame_eq_def)
  next
    case True
    from "1.prems" True obtain cs1 where
      step: "generation_step api params w cs = Inr cs1" and
      rest: "generation_loop api params w (i + 1) cs1 = Inr cs'"
      by (auto simp: generation_loop_unfold_True split: sum.splits)
    from step have ret: "step_ret api params ctx (n_past s) = 0" and
      cs1: "cs1 = (step_ctx api params ctx (n_past s),
                   s\<lparr>log := log s @ step_events api params w ctx (n_past s),
                     last_n_tokens_data := last_n_tokens_data s @ [step_token api ctx],
                     n_past := n_past s + 1\<rparr>)"
      by (auto simp: cs generation_step_eq split: if_splits)
    from "1.IH" [OF True step rest] obtain evs where
      evs: "log (snd cs') = log (snd cs1) @ evs"
        "list_all (run_event w) evs"
        "diagnostics evs = []"
        "list_all (\<lambda>e. snd (snd e) = 0) (evals w evs)"
        "length (sampled w evs) = nat (n_predict params - (i + 1))"
        "last_n_tokens_data (snd cs') = last_n_tokens_data (snd cs1) @ sampled w evs"
        "n_past (snd cs') = n_past (snd cs1) + int (length (sampled w evs))"
        "frame_eq (snd cs1) (snd cs')"
      by blast
    have len: "Suc (nat (n_predict params - (i + 1))) = nat (n_predict params - i)"
      using True by simp
    show ?thesis
      using evs ret True
      by (intro exI [of _ "step_events api params w ctx (n_past s) @ evs"])
         (simp add: cs cs1 step_events_props frame_eq_def len)
  qed
qed

lemma generation_loop_Inl:
  "generation_loop api params w i cs = Inl r \<Longrightarrow>
   \<exists>evs. trace r = log (snd cs) @ evs
      \<and> list_all (run_event w) evs
      \<and> (status r = Returned 1
            \<and> diagnostics evs = [newline @ ''main : failed to evaluate'' @ newline]
            \<and> \<not> list_all (\<lambda>e. snd (snd e) = 0) (evals w evs)
          \<or> status r = Aborted
            \<and> diagnostics evs = []
            \<and> list_all (\<lambda>e. snd (snd e) = 0) (evals w evs)
            \<and> length (sampled w evs) < nat (n_predict params - i))"
proof (induction api params w i cs rule: generation_loop.induct)
  case (1 api params w i cs)
  obtain ctx s where cs: "cs = (ctx, s)" by (cases cs)
  show ?case
  proof (cases "i < n_predict params")
    case False
    with "1.prems" show ?thesis
      by (simp add: generation_loop_unfold_False)
  next
    case True
    show ?thesis
    proof (cases "generation_step api params w cs")
      case (Inl r')
      with "1.prems" True have r: "r' = r"
        by (simp add: generation_loop_unfold_True)
      show ?thesis
      proof (cases "llama_n_vocab api ctx < 0")
        case neg: True
        with Inl have "r' = \<lparr>status = Aborted, trace = log s\<rparr>"
          by (simp add: cs generation_step_eq)
        with True show ?thesis
          by (simp add: r [symmetric] cs)
      next
        case False
        with Inl have ret: "step_ret api params ctx (n_past s) \<noteq> 0" and
          r': "r' = \<lparr>status = Returned 1,
                     trace = log s @ step_events api params w ctx (n_past s)
                               @ [Stderr (newline @ ''main : failed to evaluate'' @ newline)]\<rparr>"
          by (auto simp: cs generation_step_eq split: if_splits)
        show ?thesis
          using ret
          by (simp add: r [symmetric] r' cs step_events_props)
      qed
    next
      case (Inr cs1)
      with "1.prems" True have rest: "generation_loop api params w (i + 1) cs1 = Inl r"
        by (simp add: generation_loop_unfold_True)
      from Inr have
        cs1: "cs1 = (step_ctx api params ctx (n_past s),
                   s\<lparr>log := log s @ step_events api params w ctx (n_past s),
                     last_n_tokens_data := last_n_tokens_data s @ [step_token api ctx],
                     n_past := n_past s + 1\<rparr>)" and
        ret: "step_ret api params ctx (n_past s) = 0"
        by (auto simp: cs generation_step_eq split: if_splits)
      from "1.IH" [OF True Inr rest] obtain evs where
        evs: "trace r = log (snd cs1) @ evs"
          "list_all (run_event w) evs"
          "status r = Returned 1
            \<and> diagnostics evs = [newline @ ''main : failed to evaluate'' @ newline]
            \<and> \<not> list_all (\<lambda>e. snd (snd e) = 0) (evals w evs)
          \<or> status r = Aborted
            \<and> diagnostics evs = []
            \<and> list_all (\<lambda>e. snd (snd e) = 0) (evals w evs)
            \<and> length (sampled w evs) < nat (n_predict params - (i + 1))"
        by blast
      have len: "Suc (nat (n_predict params - (i + 1))) = nat (n_predict params - i)"
        using True by simp
      from evs(3) len [symmetric] ret have
        "status r = Returned 1
            \<and> diagnostics (step_events api params w ctx (n_past s) @ evs)
                = [newline @ ''main : failed to evaluate'' @ newline]
            \<and> \<not> list_all (\<lambda>e. snd (snd e) = 0)
                  (evals w (step_events api params w ctx (n_past s) @ evs))
          \<or> status r = Aborted
            \<and> diagnostics (step_events api params w ctx (n_past s) @ evs) = []
            \<and> list_all (\<lambda>e. snd (snd e) = 0)
                  (evals w (step_events api params w ctx (n_past s) @ evs))
            \<and> length (sampled w (step_events api params w ctx (n_past s) @ evs))
                < nat (n_predict params - i)"
        by (auto simp: step_events_props)
      with evs(1,2) show ?thesis
        by (intro exI [of _ "step_events api params w ctx (n_past s) @ evs"])
           (simp add: cs cs1 step_events_props)
    qed
  qed
qed

section \<open>The phases before the restore\<close>

lemma run_event_first_half: "run_event Ctx e \<Longrightarrow> first_half_event e"
  by (cases e) simp_all

lemma list_all_run_first_half: "list_all (run_event Ctx) evs \<Longrightarrow> list_all first_half_event evs"
  by (induction evs) (simp_all add: run_event_first_half)

lemma run_event_other:
  "list_all (run_event w) evs \<Longrightarrow> w' \<noteq> w \<Longrightarrow> sampled w' evs = [] \<and> evals w' evs = []"
proof (induction evs)
  case Nil
  then show ?case by simp
next
  case (Cons e evs)
  then show ?case by (cases e) simp_all
qed

lemma first_half_absent:
  "list_all first_half_event tr \<Longrightarrow>
   sampled Ctx2 tr = [] \<and> evals Ctx2 tr = []
   \<and> (\<forall>n k. Fread n k \<notin> set tr) \<and> (\<forall>b. Llama_set_state_data b \<notin> set tr)
   \<and> (\<forall>n. Llama_get_state_size Ctx2 n \<notin> set tr)"
proof (induction tr)
  case Nil
  then show ?case by simp
next
  case (Cons e tr)
  then show ?case by (cases e) auto
qed

lemma main_setup_Inl:
  "main_setup h api argv = Inl r \<Longrightarrow>
   status r \<noteq> Returned 0 \<and> list_all first_half_event (trace r) \<and> sampled w (trace r) = []
   \<and> evals w (trace r) = [] \<and> diagnostics (trace r) = []"
  by (auto simp: main_setup_def Let_def split: prod.splits if_splits)

lemma main_setup_Inr:
  "main_setup h api argv = Inr (params, lparams, tr, n, hist, ctx) \<Longrightarrow>
   tr = [Build_info (BUILD_NUMBER h) (BUILD_COMMIT h), Llama_init_from_file Ctx]
   \<and> n = 0 \<and> hist = replicate (nat (repeat_last_n params)) 0 \<and> 0 \<le> repeat_last_n params
   \<and> 0 \<le> n_predict params
   \<and> ctx = llama_init_from_file api (model params) lparams"
  by (auto simp: main_setup_def Let_def split: prod.splits if_splits)

lemma main_prompt_Inl:
  "main_prompt api params (tr, n, hist, ctx) = Inl r \<Longrightarrow>
   list_all first_half_event tr \<Longrightarrow> sampled w tr = [] \<Longrightarrow> evals w tr = [] \<Longrightarrow>
   status r \<noteq> Returned 0 \<and> list_all first_half_event (trace r) \<and> sampled w (trace r) = []
   \<and> evals w (trace r) = []"
  by (auto simp: main_prompt_def Let_def split: prod.splits if_splits option.splits)

lemma main_prompt_Inr:
  "main_prompt api params (tr, n, hist, ctx) = Inr (tr', n', hist', ctx') \<Longrightarrow>
   \<exists>c n_prompt_tokens written toks ret.
     ctx = Some c \<and> 0 \<le> n_ctx params
     \<and> llama_tokenize api c (prompt params) (n_ctx params) True = (n_prompt_tokens, written)
     \<and> 1 \<le> n_prompt_tokens
     \<and> toks = take (nat n_prompt_tokens) (overwrite written (replicate (nat (n_ctx params)) 0))
     \<and> llama_eval api c toks n (n_threads params) = (ret, ctx')
     \<and> tr' = tr @ [Llama_tokenize n_prompt_tokens, Llama_eval Ctx toks n ret]
     \<and> n' = n + n_prompt_tokens \<and> hist' = hist @ toks"
  by (auto simp: main_prompt_def Let_def split: prod.splits if_splits option.splits)

lemma main_save_Inl:
  "main_save h api (tr, n, hist, ctx) = Inl r \<Longrightarrow>
   status r = Undefined_behaviour \<and> \<not> fopen_wb_ok h
   \<and> trace r = tr @ [Llama_get_state_size Ctx (llama_get_state_size api ctx), Fopen_wb False,
                      Llama_copy_state_data (llama_copy_state_data api ctx)]"
  by (auto simp: main_save_def Let_def split: prod.splits if_splits)

lemma main_save_Inr:
  "main_save h api (tr, n, hist, ctx) = Inr (ctx', s) \<Longrightarrow>
   ctx' = ctx \<and> fopen_wb_ok h
   \<and> s = \<lparr>log = tr @ [Llama_get_state_size Ctx (llama_get_state_size api ctx), Fopen_wb True,
                      Llama_copy_state_data (llama_copy_state_data api ctx),
                      Fwrite (llama_get_state_size api ctx)
                        (min (llama_get_state_size api ctx) (fwrite_limit h)), Fclose],
          n_past = n, last_n_tokens_data = hist,
          state_size = llama_get_state_size api ctx,
          state_mem = llama_copy_state_data api ctx,
          dump_state_bin = take (min (llama_get_state_size api ctx) (fwrite_limit h))
                             (llama_copy_state_data api ctx),
          last_n_tokens_data_saved = hist, n_past_saved = n\<rparr>"
  by (auto simp: main_save_def Let_def split: prod.splits if_splits)

lemma run_event_absent:
  "list_all (run_event w) evs \<Longrightarrow>
   (\<forall>n k. Fread n k \<notin> set evs) \<and> (\<forall>b. Llama_set_state_data b \<notin> set evs)
   \<and> (\<forall>w' n. Llama_get_state_size w' n \<notin> set evs)"
proof (induction evs)
  case Nil
  then show ?case by simp
next
  case (Cons e evs)
  then show ?case by (cases e) auto
qed

lemma main_until_checkpoint_Inl:
  "main_until_checkpoint h api argv = Inl r \<Longrightarrow>
   status r \<noteq> Returned 0 \<and> list_all first_half_event (trace r)
   \<and> sampled w (trace r) = [] \<and> evals Ctx2 (trace r) = []"
proof -
  assume a: "main_until_checkpoint h api argv = Inl r"
  show ?thesis
  proof (cases "main_setup h api argv")
    case (Inl r0)
    with a have "r0 = r" by (simp add: main_until_checkpoint_def)
    with main_setup_Inl [OF Inl] show ?thesis by simp
  next
    case (Inr v)
    obtain params lparams tr n hist ctx where v: "v = (params, lparams, tr, n, hist, ctx)"
      by (cases v)
    note su = main_setup_Inr [OF Inr [unfolded v]]
    show ?thesis
    proof (cases "main_prompt api params (tr, n, hist, ctx)")
      case (Inl r1)
      with a Inr have "r1 = r" by (simp add: main_until_checkpoint_def v)
      with main_prompt_Inl [OF Inl, of w] main_prompt_Inl [OF Inl, of Ctx2] su show ?thesis by simp
    next
      case pr: (Inr v')
      obtain tr' n' hist' ctx' where v': "v' = (tr', n', hist', ctx')" by (cases v')
      from main_prompt_Inr [OF pr [unfolded v']] su
      have tr': "list_all first_half_event tr'" "sampled w tr' = []" "evals Ctx2 tr' = []"
        by auto
      show ?thesis
      proof (cases "main_save h api v'")
        case (Inl r2)
        with a Inr pr have "r2 = r" by (simp add: main_until_checkpoint_def v)
        with main_save_Inl [OF Inl [unfolded v']] tr' show ?thesis by auto
      next
        case sv: (Inr cs)
        with a Inr pr show ?thesis by (simp add: main_until_checkpoint_def v)
      qed
    qed
  qed
qed

lemma main_until_checkpoint_Inr:
  assumes "main_until_checkpoint h api argv = Inr (params, lparams, ctx, s)"
  shows "\<exists>c0 n written toks ret.
     main_setup h api argv =
       Inr (params, lparams, [Build_info (BUILD_NUMBER h) (BUILD_COMMIT h), Llama_init_from_file Ctx],
            0, replicate (nat (repeat_last_n params)) 0, Some c0)
     \<and> 0 \<le> n_predict params \<and> 0 \<le> n_ctx params \<and> fopen_wb_ok h
     \<and> llama_tokenize api c0 (prompt params) (n_ctx params) True = (n, written)
     \<and> 1 \<le> n
     \<and> toks = take (nat n) (overwrite written (replicate (nat (n_ctx params)) 0))
     \<and> llama_eval api c0 toks 0 (n_threads params) = (ret, ctx)
     \<and> s = \<lparr>log = [Build_info (BUILD_NUMBER h) (BUILD_COMMIT h), Llama_init_from_file Ctx,
                    Llama_tokenize n, Llama_eval Ctx toks 0 ret,
                    Llama_get_state_size Ctx (llama_get_state_size api ctx), Fopen_wb True,
                    Llama_copy_state_data (llama_copy_state_data api ctx),
                    Fwrite (llama_get_state_size api ctx)
                      (min (llama_get_state_size api ctx) (fwrite_limit h)), Fclose],
            n_past = n, last_n_tokens_data = replicate (nat (repeat_last_n params)) 0 @ toks,
            state_size = llama_get_state_size api ctx,
            state_mem = llama_copy_state_data api ctx,
            dump_state_bin = take (min (llama_get_state_size api ctx) (fwrite_limit h))
                               (llama_copy_state_data api ctx),
            last_n_tokens_data_saved = replicate (nat (repeat_last_n params)) 0 @ toks,
            n_past_saved = n\<rparr>"
proof -
  from assms obtain tr n hist c where
    su: "main_setup h api argv = Inr (params, lparams, tr, n, hist, c)"
    by (auto simp: main_until_checkpoint_def split: sum.splits)
  from assms su obtain tr' n' hist' ctx' where
    pr: "main_prompt api params (tr, n, hist, c) = Inr (tr', n', hist', ctx')"
    by (auto simp: main_until_checkpoint_def split: sum.splits)
  from assms su pr have
    sv: "main_save h api (tr', n', hist', ctx') = Inr (ctx, s)"
    by (auto simp: main_until_checkpoint_def split: sum.splits)
  from main_setup_Inr [OF su] main_prompt_Inr [OF pr] main_save_Inr [OF sv] su
  show ?thesis by auto
qed

lemma first_run_Inr:
  assumes "first_run api params (ctx, s) = Inr (ctx', s')"
  shows "\<exists>evs. log s' = log s @ Stdout (newline @ prompt params) # evs @ [Stdout (newline @ newline)]
        \<and> list_all (run_event Ctx) evs
        \<and> diagnostics evs = []
        \<and> list_all (\<lambda>e. snd (snd e) = 0) (evals Ctx evs)
        \<and> length (sampled Ctx evs) = nat (n_predict params)
        \<and> last_n_tokens_data s' = last_n_tokens_data s @ sampled Ctx evs
        \<and> n_past s' = n_past s + int (length (sampled Ctx evs))
        \<and> frame_eq s s'"
proof -
  from assms obtain c1 s1 where
    loop: "generation_loop api params Ctx 0
             (ctx, s\<lparr>log := log s @ [Stdout (newline @ prompt params)]\<rparr>) = Inr (c1, s1)" and
    s': "s' = s1\<lparr>log := log s1 @ [Stdout (newline @ newline)]\<rparr>"
    by (auto simp: first_run_def split: sum.splits)
  from generation_loop_Inr [OF loop] show ?thesis
    by (auto simp: s' frame_eq_def)
qed

lemma first_run_Inl:
  assumes "first_run api params (ctx, s) = Inl r"
  shows "status r \<noteq> Returned 0
     \<and> (\<exists>evs. trace r = log s @ Stdout (newline @ prompt params) # evs
           \<and> list_all (run_event Ctx) evs)"
proof -
  from assms have
    loop: "generation_loop api params Ctx 0
             (ctx, s\<lparr>log := log s @ [Stdout (newline @ prompt params)]\<rparr>) = Inl r"
    by (auto simp: first_run_def split: sum.splits)
  from generation_loop_Inl [OF loop] show ?thesis
    by auto
qed

lemma main_until_first_run_Inl:
  assumes "main_until_first_run h api argv = Inl r"
  shows "status r \<noteq> Returned 0 \<and> list_all first_half_event (trace r)"
proof (cases "main_until_checkpoint h api argv")
  case (Inl r0)
  with assms have "r0 = r" by (simp add: main_until_first_run_def)
  with main_until_checkpoint_Inl [OF Inl] show ?thesis by simp
next
  case (Inr v)
  obtain params lparams ctx s where v: "v = (params, lparams, ctx, s)" by (cases v)
  from main_until_checkpoint_Inr [OF Inr [unfolded v]]
  have fh: "list_all first_half_event (log s)" by auto
  from assms Inr have "first_run api params (ctx, s) = Inl r"
    by (auto simp: main_until_first_run_def v split: sum.splits)
  from first_run_Inl [OF this] fh show ?thesis
    by (auto simp: list_all_run_first_half)
qed

lemma main_until_first_run_Inr:
  assumes "main_until_first_run h api argv = Inr (params, lparams, ctx, s)"
  shows "list_all first_half_event (log s)
     \<and> (\<forall>n. Llama_get_state_size Ctx n \<in> set (log s) \<longrightarrow> n = state_size s)
     \<and> Llama_get_state_size Ctx (state_size s) \<in> set (log s)
     \<and> diagnostics (log s) = []
     \<and> length (sampled Ctx (log s)) = nat (n_predict params)
     \<and> 0 \<le> n_predict params"
proof -
  from assms obtain c0 s0 where
    cp: "main_until_checkpoint h api argv = Inr (params, lparams, c0, s0)" and
    fr: "first_run api params (c0, s0) = Inr (ctx, s)"
    by (auto simp: main_until_first_run_def split: sum.splits)
  from first_run_Inr [OF fr] obtain evs where
    evs: "log s = log s0 @ Stdout (newline @ prompt params) # evs @ [Stdout (newline @ newline)]"
      "list_all (run_event Ctx) evs" "diagnostics evs = []"
      "length (sampled Ctx evs) = nat (n_predict params)" "frame_eq s0 s"
    by blast
  from main_until_checkpoint_Inr [OF cp] evs run_event_absent [OF evs(2)]
  show ?thesis
    by (auto simp: list_all_run_first_half frame_eq_def)
qed

section \<open>The restore and the second run\<close>

lemma second_run_shape:
  "\<exists>evs. trace (second_run api params (ctx, s)) = log s @ evs
      \<and> list_all (run_event Ctx2) evs
      \<and> (status (second_run api params (ctx, s)) = Returned 0
            \<and> list_all (\<lambda>e. snd (snd e) = 0) (evals Ctx2 evs)
            \<and> diagnostics evs = []
            \<and> length (sampled Ctx2 evs) = nat (n_predict params)
          \<or> status (second_run api params (ctx, s)) = Returned 1
            \<and> \<not> list_all (\<lambda>e. snd (snd e) = 0) (evals Ctx2 evs)
            \<and> diagnostics evs = [newline @ ''main : failed to evaluate'' @ newline]
          \<or> status (second_run api params (ctx, s)) = Aborted
            \<and> list_all (\<lambda>e. snd (snd e) = 0) (evals Ctx2 evs)
            \<and> diagnostics evs = []
            \<and> length (sampled Ctx2 evs) < nat (n_predict params))"
proof (cases "generation_loop api params Ctx2 0 (ctx, s)")
  case (Inl r)
  from generation_loop_Inl [OF Inl] Inl show ?thesis
    by (auto simp: second_run_def)
next
  case (Inr cs)
  obtain c' s' where cs: "cs = (c', s')" by (cases cs)
  from generation_loop_Inr [OF Inr] obtain evs where
    evs: "log s' = log s @ evs" "list_all (run_event Ctx2) evs" "diagnostics evs = []"
      "list_all (\<lambda>e. snd (snd e) = 0) (evals Ctx2 evs)"
      "length (sampled Ctx2 evs) = nat (n_predict params)"
    by (auto simp: cs)
  show ?thesis
    using evs Inr
    by (intro exI [of _ "evs @ [Stdout (newline @ newline)]"]) (simp add: second_run_def cs)
qed

lemma main_early:
  assumes "main_until_first_run h api argv = Inl r"
  shows "main h api argv = r"
  using assms by (simp add: main_def main_until_restore_def)

lemma main_after_first_run:
  assumes fr: "main_until_first_run h api argv = Inr (params, lparams, ctx, s)"
  obtains
    (null_ctx2)
      "llama_init_from_file api (model params) lparams = None"
      "main h api argv =
         \<lparr>status = Undefined_behaviour,
          trace = log s @ [Llama_free, Llama_init_from_file Ctx2, Fopen_rb (fopen_rb_ok h)]\<rparr>"
  | (mismatch) c2 where
      "llama_init_from_file api (model params) lparams = Some c2"
      "state_size s \<noteq> llama_get_state_size api c2"
      "main h api argv =
         \<lparr>status = Returned 1,
          trace = log s @ [Llama_free, Llama_init_from_file Ctx2, Fopen_rb (fopen_rb_ok h),
                           Llama_get_state_size Ctx2 (llama_get_state_size api c2),
                           Stderr (newline @ ''main : failed to validate state size'' @ newline)]\<rparr>"
  | (null_file) c2 where
      "llama_init_from_file api (model params) lparams = Some c2"
      "state_size s = llama_get_state_size api c2"
      "\<not> fopen_rb_ok h"
      "main h api argv =
         \<lparr>status = Undefined_behaviour,
          trace = log s @ [Llama_free, Llama_init_from_file Ctx2, Fopen_rb False,
                           Llama_get_state_size Ctx2 (state_size s)]\<rparr>"
  | (short_read) c2 ret where
      "llama_init_from_file api (model params) lparams = Some c2"
      "state_size s = llama_get_state_size api c2"
      "fopen_rb_ok h"
      "ret = min (state_size s) (min (length (dump_state_bin s)) (fread_limit h))"
      "ret \<noteq> state_size s"
      "main h api argv =
         \<lparr>status = Returned 1,
          trace = log s @ [Llama_free, Llama_init_from_file Ctx2, Fopen_rb True,
                           Llama_get_state_size Ctx2 (state_size s),
                           Fread (state_size s) ret,
                           Stderr (newline @ ''main : failed to read state'' @ newline)]\<rparr>"
  | (restored) c2 mem where
      "llama_init_from_file api (model params) lparams = Some c2"
      "state_size s = llama_get_state_size api c2"
      "fopen_rb_ok h"
      "min (state_size s) (min (length (dump_state_bin s)) (fread_limit h)) = state_size s"
      "mem = overwrite (take (state_size s) (dump_state_bin s)) (state_mem s)"
      "main_until_restore h api argv =
         Inr (params, lparams, llama_set_state_data api c2 mem,
              s\<lparr>log := log s @ [Llama_free, Llama_init_from_file Ctx2, Fopen_rb True,
                                 Llama_get_state_size Ctx2 (state_size s),
                                 Fread (state_size s) (state_size s),
                                 Llama_set_state_data mem, Fclose],
                state_mem := mem,
                last_n_tokens_data := last_n_tokens_data_saved s,
                n_past := n_past_saved s\<rparr>)"
proof (cases "llama_init_from_file api (model params) lparams")
  case None
  then show ?thesis
    using fr by (intro null_ctx2) (simp_all add: main_def main_until_restore_def main_load_def)
next
  case (Some c2)
  show ?thesis
  proof (cases "state_size s = llama_get_state_size api c2")
    case False
    then show ?thesis
      using fr Some
      by (intro mismatch [of c2]) (simp_all add: main_def main_until_restore_def main_load_def)
  next
    case sz: True
    show ?thesis
    proof (cases "fopen_rb_ok h")
      case False
      then show ?thesis
        using fr Some sz
        by (intro null_file [of c2]) (simp_all add: main_def main_until_restore_def main_load_def)
    next
      case op: True
      show ?thesis
      proof (cases "min (state_size s) (min (length (dump_state_bin s)) (fread_limit h)) = state_size s")
        case False
        then show ?thesis
          using fr Some sz op
          by (intro short_read [of c2 "min (state_size s) (min (length (dump_state_bin s)) (fread_limit h))"])
             (simp_all add: main_def main_until_restore_def main_load_def Let_def)
      next
        case True
        then show ?thesis
          using fr Some sz op
          by (intro restored [of c2 "overwrite (take (state_size s) (dump_state_bin s)) (state_mem s)"])
             (simp_all add: main_def main_until_restore_def main_load_def Let_def)
      qed
    qed
  qed
qed

lemma first_half_mem:
  assumes "list_all first_half_event tr"
  shows "Fread n k \<notin> set tr" "Llama_set_state_data b \<notin> set tr"
    "Llama_get_state_size Ctx2 m \<notin> set tr" "sampled Ctx2 tr = []" "evals Ctx2 tr = []"
  using first_half_absent [OF assms] by simp_all

lemma run_event_mem:
  assumes "list_all (run_event w) evs"
  shows "Fread n k \<notin> set evs" "Llama_set_state_data b \<notin> set evs"
    "Llama_get_state_size w' m \<notin> set evs"
  using run_event_absent [OF assms] by simp_all

lemma main_until_first_run_size:
  assumes "main_until_first_run h api argv = Inr (params, lparams, ctx, s)"
  shows "(Llama_get_state_size Ctx n \<in> set (log s)) = (n = state_size s)"
  using main_until_first_run_Inr [OF assms] by blast

section \<open>Two runs from related contexts\<close>

lemma contract_step:
  assumes ec: "engine_contract api R" and r: "R a b"
  shows "candidates_of api a = candidates_of api b"
    and "step_token api a = step_token api b"
    and "step_ret api params a n = step_ret api params b n"
    and "R (step_ctx api params a n) (step_ctx api params b n)"
proof -
  from ec r have nv: "llama_n_vocab api a = llama_n_vocab api b"
    and lg: "\<And>i. i < nat (llama_n_vocab api a) \<Longrightarrow> llama_get_logits api a i = llama_get_logits api b i"
    and sm: "\<And>cands. fst (llama_sample_token api a cands) = fst (llama_sample_token api b cands)"
    and sr: "\<And>cands. R (snd (llama_sample_token api a cands)) (snd (llama_sample_token api b cands))"
    unfolding engine_contract_def by blast+
  have ev: "\<And>x y toks m nt. R x y \<Longrightarrow>
      fst (llama_eval api x toks m nt) = fst (llama_eval api y toks m nt)
      \<and> R (snd (llama_eval api x toks m nt)) (snd (llama_eval api y toks m nt))"
    using ec unfolding engine_contract_def by blast
  show c: "candidates_of api a = candidates_of api b"
    using lg by (simp add: candidates_of_def nv [symmetric])
  show t: "step_token api a = step_token api b"
    by (simp add: step_token_def c [symmetric] sm)
  from sr [of "candidates_of api a"]
  have r1: "R (snd (llama_sample_token api a (candidates_of api a)))
              (snd (llama_sample_token api b (candidates_of api b)))"
    by (simp add: c)
  from ev [OF r1] show "step_ret api params a n = step_ret api params b n"
    by (simp add: step_ret_def t)
  from ev [OF r1] show "R (step_ctx api params a n) (step_ctx api params b n)"
    by (simp add: step_ctx_def t)
qed

lemma generation_loop_sim:
  assumes ec: "engine_contract api R"
  shows "R a b \<Longrightarrow> n_past sa = n_past sb \<Longrightarrow>
    generation_loop api params w1 i (a, sa) = Inr (a', sa') \<Longrightarrow>
    generation_loop api params w2 i (b, sb) = Inr (b', sb') \<Longrightarrow>
    \<exists>ts. sampled w1 (log sa') = sampled w1 (log sa) @ ts
        \<and> sampled w2 (log sb') = sampled w2 (log sb) @ ts"
proof (induction "nat (n_predict params - i)" arbitrary: i a sa b sb)
  case 0
  then have "\<not> i < n_predict params" by simp
  with "0.prems" show ?case
    by (simp add: generation_loop_unfold_False)
next
  case (Suc k)
  then have lt: "i < n_predict params" by simp
  from Suc.prems(3) lt obtain csa where
    sta: "generation_step api params w1 (a, sa) = Inr csa" and
    resta: "generation_loop api params w1 (i + 1) csa = Inr (a', sa')"
    by (auto simp: generation_loop_unfold_True split: sum.splits)
  from Suc.prems(4) lt obtain csb where
    stb: "generation_step api params w2 (b, sb) = Inr csb" and
    restb: "generation_loop api params w2 (i + 1) csb = Inr (b', sb')"
    by (auto simp: generation_loop_unfold_True split: sum.splits)
  let ?sa1 = "sa\<lparr>log := log sa @ step_events api params w1 a (n_past sa),
                   last_n_tokens_data := last_n_tokens_data sa @ [step_token api a],
                   n_past := n_past sa + 1\<rparr>"
  let ?sb1 = "sb\<lparr>log := log sb @ step_events api params w2 b (n_past sb),
                   last_n_tokens_data := last_n_tokens_data sb @ [step_token api b],
                   n_past := n_past sb + 1\<rparr>"
  from sta have csa: "csa = (step_ctx api params a (n_past sa), ?sa1)"
    by (auto simp: generation_step_eq split: if_splits)
  from stb have csb: "csb = (step_ctx api params b (n_past sb), ?sb1)"
    by (auto simp: generation_step_eq split: if_splits)
  note cs = contract_step [OF ec Suc.prems(1)]
  have k: "k = nat (n_predict params - (i + 1))"
    using Suc.hyps(2) by simp
  have r1: "R (step_ctx api params a (n_past sa)) (step_ctx api params b (n_past sb))"
    using cs(4) [of params "n_past sa"] Suc.prems(2) by simp
  have np: "n_past ?sa1 = n_past ?sb1"
    using Suc.prems(2) by simp
  from Suc.hyps(1) [OF k r1 np resta [unfolded csa] restb [unfolded csb]]
  obtain ts where
    ts: "sampled w1 (log sa') = sampled w1 (log ?sa1) @ ts"
      "sampled w2 (log sb') = sampled w2 (log ?sb1) @ ts"
    by blast
  show ?case
    using ts cs(2)
    by (intro exI [of _ "step_token api a # ts"]) (simp add: step_events_props)
qed

lemma main_setup_n_predict:
  "main_setup h api argv = Inr (params, rest) \<Longrightarrow> n_predict params = effective_n_predict h argv"
  by (auto simp: main_setup_def effective_n_predict_def parsed_params_def Let_def
      split: prod.splits if_splits)

lemma overwrite_take: "overwrite (take n xs) xs = xs"
proof (cases "n \<le> length xs")
  case True
  then show ?thesis by (simp add: overwrite_def min_absorb2)
next
  case False
  then show ?thesis by (simp add: overwrite_def)
qed

section \<open>The trace after the checkpoint\<close>



section \<open>Running the program on the small engine\<close>

lemma upt_0_3: "[0..<3] = [0, 1, 2]"
  by (simp add: upt_conv_Cons)

lemma replicate_2: "replicate 2 x = [x, x]"
  by (simp add: numeral_2_eq_2)

lemma first_run_eval:
  "first_run api params (ctx, s) =
     (case generation_loop api params Ctx 0
             (ctx, s\<lparr>log := log s @ [Stdout (newline @ prompt params)]\<rparr>) of
        Inl r \<Rightarrow> Inl r
      | Inr cs \<Rightarrow> Inr (fst cs, (snd cs)\<lparr>log := log (snd cs) @ [Stdout (newline @ newline)]\<rparr>))"
  by (simp add: first_run_def split: sum.splits prod.splits)

lemma toy_api_sel:
  "llama_context_default_params toy_api =
     \<lparr>n_ctx_lp = 512, seed_lp = 0, f16_kv_lp = True, use_mmap_lp = True, use_mlock_lp = False\<rparr>"
  "llama_init_from_file toy_api path lparams = Some 0"
  "llama_tokenize toy_api ctx text n_max add_bos = (if 2 \<le> n_max then (2, [1, 7]) else (- 2, []))"
  "llama_eval toy_api ctx toks n nt = (0, 3 * ctx + of_int (sum_list toks) + of_int n)"
  "llama_get_state_size toy_api ctx = 1"
  "llama_copy_state_data toy_api ctx = [ctx]"
  "llama_set_state_data toy_api ctx bs = (case bs of [] \<Rightarrow> ctx | b # _ \<Rightarrow> b)"
  "llama_get_logits toy_api ctx i = int ((unat ctx + 2 * i) mod 3)"
  "llama_n_vocab toy_api ctx = 3"
  "llama_sample_token toy_api ctx candidates = (greedy candidates, ctx)"
  "llama_token_to_str toy_api ctx t = (if t = 0 then ''a'' else if t = 1 then ''b'' else ''c'')"
  by (simp_all add: toy_api_def)

lemma drift_api_sel:
  "llama_context_default_params drift_api = llama_context_default_params toy_api"
  "llama_init_from_file drift_api = llama_init_from_file toy_api"
  "llama_tokenize drift_api = llama_tokenize toy_api"
  "llama_eval drift_api = llama_eval toy_api"
  "llama_get_state_size drift_api ctx = (if ctx = 0 then 1 else 2)"
  "llama_copy_state_data drift_api ctx = (if ctx = 0 then [ctx] else [ctx, 0])"
  "llama_set_state_data drift_api = llama_set_state_data toy_api"
  "llama_get_logits drift_api = llama_get_logits toy_api"
  "llama_n_vocab drift_api = llama_n_vocab toy_api"
  "llama_sample_token drift_api = llama_sample_token toy_api"
  "llama_token_to_str drift_api = llama_token_to_str toy_api"
  by (simp_all add: drift_api_def)

lemma amnesic_api_sel:
  "llama_context_default_params amnesic_api = llama_context_default_params toy_api"
  "llama_init_from_file amnesic_api = llama_init_from_file toy_api"
  "llama_tokenize amnesic_api = llama_tokenize toy_api"
  "llama_eval amnesic_api = llama_eval toy_api"
  "llama_get_state_size amnesic_api = llama_get_state_size toy_api"
  "llama_copy_state_data amnesic_api = llama_copy_state_data toy_api"
  "llama_set_state_data amnesic_api ctx bs = ctx"
  "llama_get_logits amnesic_api = llama_get_logits toy_api"
  "llama_n_vocab amnesic_api = llama_n_vocab toy_api"
  "llama_sample_token amnesic_api = llama_sample_token toy_api"
  "llama_token_to_str amnesic_api = llama_token_to_str toy_api"
  by (simp_all add: amnesic_api_def)

lemma prompt_fail_api_sel:
  "llama_context_default_params prompt_fail_api = llama_context_default_params toy_api"
  "llama_init_from_file prompt_fail_api = llama_init_from_file toy_api"
  "llama_tokenize prompt_fail_api = llama_tokenize toy_api"
  "llama_eval prompt_fail_api ctx toks n nt =
     (if 1 < length toks then 1 else 0, 3 * ctx + of_int (sum_list toks) + of_int n)"
  "llama_get_state_size prompt_fail_api = llama_get_state_size toy_api"
  "llama_copy_state_data prompt_fail_api = llama_copy_state_data toy_api"
  "llama_set_state_data prompt_fail_api = llama_set_state_data toy_api"
  "llama_get_logits prompt_fail_api = llama_get_logits toy_api"
  "llama_n_vocab prompt_fail_api = llama_n_vocab toy_api"
  "llama_sample_token prompt_fail_api = llama_sample_token toy_api"
  "llama_token_to_str prompt_fail_api = llama_token_to_str toy_api"
  by (simp_all add: prompt_fail_api_def)

lemma mute_api_sel:
  "llama_context_default_params mute_api = llama_context_default_params toy_api"
  "llama_init_from_file mute_api = llama_init_from_file toy_api"
  "llama_tokenize mute_api ctx text n_max add_bos = (0, [])"
  "llama_eval mute_api = llama_eval toy_api"
  "llama_get_state_size mute_api = llama_get_state_size toy_api"
  "llama_copy_state_data mute_api = llama_copy_state_data toy_api"
  "llama_set_state_data mute_api = llama_set_state_data toy_api"
  "llama_get_logits mute_api = llama_get_logits toy_api"
  "llama_n_vocab mute_api = llama_n_vocab toy_api"
  "llama_sample_token mute_api = llama_sample_token toy_api"
  "llama_token_to_str mute_api = llama_token_to_str toy_api"
  by (simp_all add: mute_api_def)

lemma vocab_loss_api_sel:
  "llama_context_default_params vocab_loss_api = llama_context_default_params toy_api"
  "llama_init_from_file vocab_loss_api = llama_init_from_file toy_api"
  "llama_tokenize vocab_loss_api = llama_tokenize toy_api"
  "llama_eval vocab_loss_api = llama_eval toy_api"
  "llama_get_state_size vocab_loss_api = llama_get_state_size toy_api"
  "llama_copy_state_data vocab_loss_api = llama_copy_state_data toy_api"
  "llama_set_state_data vocab_loss_api ctx bs = 1"
  "llama_get_logits vocab_loss_api = llama_get_logits toy_api"
  "llama_n_vocab vocab_loss_api ctx = (if ctx = 1 then - 1 else 3)"
  "llama_sample_token vocab_loss_api = llama_sample_token toy_api"
  "llama_token_to_str vocab_loss_api = llama_token_to_str toy_api"
  by (simp_all add: vocab_loss_api_def)

lemma toy_host_sel:
  "gpt_params_default toy_host =
     \<lparr>seed = - 1, n_threads = 1, n_predict = - 1, repeat_last_n = 64, n_ctx = 512,
      memory_f16 = True, use_mmap = True, use_mlock = False,
      model = ''models/7B/ggml-model.bin'', prompt = []\<rparr>"
  "gpt_params_parse toy_host argv params =
     (True, params\<lparr>n_predict := 3, repeat_last_n := 2, n_ctx := 8\<rparr>)"
  "BUILD_NUMBER toy_host = 0"
  "BUILD_COMMIT toy_host = ''unknown''"
  "fopen_wb_ok toy_host = True"
  "fwrite_limit toy_host = 4096"
  "fopen_rb_ok toy_host = True"
  "fread_limit toy_host = 4096"
  by (simp_all add: toy_host_def)

lemma full_disk_host_sel:
  "gpt_params_default full_disk_host = gpt_params_default toy_host"
  "gpt_params_parse full_disk_host = gpt_params_parse toy_host"
  "BUILD_NUMBER full_disk_host = 0"
  "BUILD_COMMIT full_disk_host = ''unknown''"
  "fopen_wb_ok full_disk_host = True"
  "fwrite_limit full_disk_host = 0"
  "fopen_rb_ok full_disk_host = True"
  "fread_limit full_disk_host = 4096"
  by (simp_all add: full_disk_host_def toy_host_def)

lemma bad_read_host_sel:
  "gpt_params_default bad_read_host = gpt_params_default toy_host"
  "gpt_params_parse bad_read_host = gpt_params_parse toy_host"
  "BUILD_NUMBER bad_read_host = 0"
  "BUILD_COMMIT bad_read_host = ''unknown''"
  "fopen_wb_ok bad_read_host = True"
  "fwrite_limit bad_read_host = 4096"
  "fopen_rb_ok bad_read_host = True"
  "fread_limit bad_read_host = 0"
  by (simp_all add: bad_read_host_def toy_host_def)

lemma no_write_host_sel:
  "gpt_params_default no_write_host = gpt_params_default toy_host"
  "gpt_params_parse no_write_host = gpt_params_parse toy_host"
  "BUILD_NUMBER no_write_host = 0"
  "BUILD_COMMIT no_write_host = ''unknown''"
  "fopen_wb_ok no_write_host = False"
  "fwrite_limit no_write_host = 4096"
  "fopen_rb_ok no_write_host = True"
  "fread_limit no_write_host = 4096"
  by (simp_all add: no_write_host_def toy_host_def)

lemma zero_predict_host_sel:
  "gpt_params_default zero_predict_host = gpt_params_default toy_host"
  "gpt_params_parse zero_predict_host argv params =
     (True, params\<lparr>n_predict := 0, repeat_last_n := 2, n_ctx := 8\<rparr>)"
  "BUILD_NUMBER zero_predict_host = 0"
  "BUILD_COMMIT zero_predict_host = ''unknown''"
  "fopen_wb_ok zero_predict_host = True"
  "fwrite_limit zero_predict_host = 4096"
  "fopen_rb_ok zero_predict_host = True"
  "fread_limit zero_predict_host = 4096"
  by (simp_all add: zero_predict_host_def toy_host_def)

lemma default_predict_host_sel:
  "gpt_params_default default_predict_host = gpt_params_default toy_host"
  "gpt_params_parse default_predict_host argv params =
     (True, params\<lparr>repeat_last_n := 2, n_ctx := 8\<rparr>)"
  "BUILD_NUMBER default_predict_host = 0"
  "BUILD_COMMIT default_predict_host = ''unknown''"
  "fopen_wb_ok default_predict_host = True"
  "fwrite_limit default_predict_host = 4096"
  "fopen_rb_ok default_predict_host = True"
  "fread_limit default_predict_host = 4096"
  by (simp_all add: default_predict_host_def toy_host_def)

lemmas run_eval =
  main_def main_until_restore_def main_until_first_run_def main_until_checkpoint_def
  main_setup_def main_prompt_def main_save_def first_run_eval main_load_def second_run_def
  overwrite_def Let_def generation_loop.simps generation_step_def populate_candidates_acc
  greedy_def upt_0_3 replicate_2 tokens_at_def
  toy_api_sel drift_api_sel amnesic_api_sel prompt_fail_api_sel mute_api_sel vocab_loss_api_sel
  toy_host_sel full_disk_host_sel bad_read_host_sel no_write_host_sel zero_predict_host_sel
  default_predict_host_sel

section \<open>What the prediction runs print\<close>





section \<open>The claims\<close>

text \<open>
  Claim C1. Determinism under restore. Let the engine respect a relation \<open>R\<close> of
  indistinguishable contexts (related contexts give the same logits, sample the same
  token, evaluate alike, and restoring a captured state gives a context related to the
  captured one). Then on every run of \<^verbatim>\<open>main\<close> that returns 0, whatever the model,
  the parameters and the prompt, the tokens sampled in the first prediction run (S1) and
  those sampled in the second, on the restored context (S2), are the same sequence, of
  length \<^verbatim>\<open>n_predict\<close>.
\<close>

theorem restore_determinism:
  assumes ec: "engine_contract api R"
    and ok: "status (main h api argv) = Returned 0"
  shows "sampled Ctx (trace (main h api argv)) = sampled Ctx2 (trace (main h api argv))
     \<and> length (sampled Ctx (trace (main h api argv))) = nat (effective_n_predict h argv)
     \<and> length (sampled Ctx2 (trace (main h api argv))) = nat (effective_n_predict h argv)"
proof (cases "main_until_first_run h api argv")
  case (Inl r)
  from main_until_first_run_Inl [OF Inl] main_early [OF Inl] ok show ?thesis by simp
next
  case (Inr v)
  obtain params lparams c1 s1 where v: "v = (params, lparams, c1, s1)" by (cases v)
  note fr = Inr [unfolded v]
  from fr obtain c0 s0 where
    cp: "main_until_checkpoint h api argv = Inr (params, lparams, c0, s0)" and
    run1: "first_run api params (c0, s0) = Inr (c1, s1)"
    by (auto simp: main_until_first_run_def split: sum.splits)
  from cp have np: "n_predict params = effective_n_predict h argv"
    by (auto simp: main_until_checkpoint_def split: sum.splits dest: main_setup_n_predict)
  from main_until_checkpoint_Inr [OF cp] have
    s0: "sampled Ctx (log s0) = []" "sampled Ctx2 (log s0) = []"
      "state_size s0 = llama_get_state_size api c0"
      "state_mem s0 = llama_copy_state_data api c0"
      "dump_state_bin s0 = take (min (state_size s0) (fwrite_limit h)) (state_mem s0)"
      "n_past_saved s0 = n_past s0"
    by auto
  let ?s0' = "s0\<lparr>log := log s0 @ [Stdout (newline @ prompt params)]\<rparr>"
  from run1 obtain s1' where
    loop1: "generation_loop api params Ctx 0 (c0, ?s0') = Inr (c1, s1')" and
    s1: "s1 = s1'\<lparr>log := log s1' @ [Stdout (newline @ newline)]\<rparr>"
    by (auto simp: first_run_def split: sum.splits)
  from generation_loop_Inr [OF loop1] obtain evs1 where
    evs1: "log s1' = log ?s0' @ evs1" "list_all (run_event Ctx) evs1"
      "length (sampled Ctx evs1) = nat (n_predict params)" "frame_eq ?s0' s1'"
    by auto
  from fr show ?thesis
  proof (cases rule: main_after_first_run)
    case null_ctx2
    with ok show ?thesis by simp
  next
    case (mismatch c2)
    with ok show ?thesis by simp
  next
    case (null_file c2)
    with ok show ?thesis by simp
  next
    case (short_read c2 ret)
    with ok show ?thesis by simp
  next
    case (restored c2 mem)
    let ?pre = "[Llama_free, Llama_init_from_file Ctx2, Fopen_rb True,
                 Llama_get_state_size Ctx2 (state_size s1),
                 Fread (state_size s1) (state_size s1),
                 Llama_set_state_data mem, Fclose]"
    let ?s2 = "s1\<lparr>log := log s1 @ ?pre, state_mem := mem,
                  last_n_tokens_data := last_n_tokens_data_saved s1,
                  n_past := n_past_saved s1\<rparr>"
    let ?c2 = "llama_set_state_data api c2 mem"
    from restored have m: "main h api argv = second_run api params (?c2, ?s2)"
      by (simp add: main_def)
    from ok m obtain c3 s3 where
      loop2: "generation_loop api params Ctx2 0 (?c2, ?s2) = Inr (c3, s3)" and
      tr: "trace (main h api argv) = log s3 @ [Stdout (newline @ newline)]"
    proof (cases "generation_loop api params Ctx2 0 (?c2, ?s2)")
      case (Inl r)
      from generation_loop_Inl [OF Inl] Inl ok m show ?thesis
        by (simp add: second_run_def)
    next
      case (Inr cs)
      with m that show ?thesis
        by (cases cs) (simp add: second_run_def)
    qed
    from generation_loop_Inr [OF loop2] obtain evs2 where
      evs2: "log s3 = log ?s2 @ evs2" "list_all (run_event Ctx2) evs2"
        "length (sampled Ctx2 evs2) = nat (n_predict params)"
      by auto
    from evs1(4) s0 s1 have frame:
      "state_size s1 = llama_get_state_size api c0"
      "state_mem s1 = llama_copy_state_data api c0"
      "dump_state_bin s1 = take (min (state_size s1) (fwrite_limit h)) (llama_copy_state_data api c0)"
      "n_past_saved s1 = n_past s0"
      by (simp_all add: frame_eq_def)
    from restored(4,5) have mem: "mem = llama_copy_state_data api c0"
      by (simp add: frame overwrite_take)
    from ec restored(2) have rel: "R c0 ?c2"
      unfolding engine_contract_def mem frame(1) by metis
    have npast: "n_past ?s0' = n_past ?s2"
      by (simp add: frame)
    from generation_loop_sim [OF ec rel npast loop1 loop2] obtain ts where
      ts: "sampled Ctx (log s1') = sampled Ctx (log ?s0') @ ts"
        "sampled Ctx2 (log s3) = sampled Ctx2 (log ?s2) @ ts"
      by blast
    have a: "sampled Ctx (log s1') = sampled Ctx evs1" "sampled Ctx2 evs1 = []"
      using evs1 s0 run_event_other [OF evs1(2), of Ctx2] by simp_all
    have b: "sampled Ctx2 (log s3) = sampled Ctx2 evs2" "sampled Ctx evs2 = []"
      using evs2 evs1 s0 s1 a run_event_other [OF evs2(2), of Ctx] by simp_all
    have c: "sampled Ctx (log s1') = ts" "sampled Ctx2 (log s3) = ts"
      using ts a b evs1 evs2 s0 s1 by simp_all
    have "sampled Ctx (trace (main h api argv)) = sampled Ctx evs1"
      by (simp add: tr evs2 s1 evs1 s0 b)
    moreover have "sampled Ctx2 (trace (main h api argv)) = sampled Ctx2 evs2"
      by (simp add: tr evs2 s1 evs1 s0 a)
    ultimately show ?thesis
      using a b c evs1(3) evs2(3) np by simp
  qed
qed

text \<open>The small engine meets the contract with equality for \<open>R\<close>; three tokens each run.\<close>

theorem restore_determinism_witness:
  "engine_contract toy_api (=)
   \<and> status (main toy_host toy_api []) = Returned 0
   \<and> effective_n_predict toy_host [] = 3
   \<and> sampled Ctx (trace (main toy_host toy_api [])) = [0, 0, 1]
   \<and> sampled Ctx2 (trace (main toy_host toy_api [])) = [0, 0, 1]"
proof -
  have ec: "engine_contract toy_api (=)"
    by (simp add: engine_contract_def toy_api_sel)
  have ok: "status (main toy_host toy_api []) = Returned 0"
    by (simp add: run_eval cong: let_weak_cong prod.case_cong_weak)
  have s1: "sampled Ctx (trace (main toy_host toy_api [])) = [0, 0, 1]"
    by (simp add: run_eval cong: let_weak_cong prod.case_cong_weak)
  have n: "effective_n_predict toy_host [] = 3"
    by (simp add: effective_n_predict_def parsed_params_def toy_host_sel)
  from restore_determinism [OF ec ok] s1 ok ec n show ?thesis
    by simp
qed




text \<open>
  Claim C3. Size mismatch. When the state size reported for the second context differs
  from the size of the captured state (the size reported for the first context), the
  program ends with status 1 and the diagnostic of the size check, and no byte has been
  read from the file and no restore call has been made on any context.
\<close>

theorem size_mismatch_rejected:
  assumes ctx_size: "Llama_get_state_size Ctx n1 \<in> set (trace (main h api argv))"
    and ctx2_size: "Llama_get_state_size Ctx2 n2 \<in> set (trace (main h api argv))"
    and differ: "n1 \<noteq> n2"
  shows "status (main h api argv) = Returned 1
     \<and> diagnostics (trace (main h api argv))
         = [newline @ ''main : failed to validate state size'' @ newline]
     \<and> last (trace (main h api argv))
         = Stderr (newline @ ''main : failed to validate state size'' @ newline)
     \<and> (\<forall>n k. Fread n k \<notin> set (trace (main h api argv)))
     \<and> (\<forall>b. Llama_set_state_data b \<notin> set (trace (main h api argv)))"
proof (cases "main_until_first_run h api argv")
  case (Inl r)
  from main_until_first_run_Inl [OF Inl] have "list_all first_half_event (trace r)" by simp
  from first_half_mem(3) [OF this] main_early [OF Inl] ctx2_size
  show ?thesis by simp
next
  case (Inr v)
  obtain params lparams ctx s where v: "v = (params, lparams, ctx, s)" by (cases v)
  note fr = Inr [unfolded v]
  note fh = main_until_first_run_Inr [OF fr]
  from fh have fh1: "list_all first_half_event (log s)" and dg: "diagnostics (log s) = []"
    by simp_all
  note ab = first_half_mem [OF fh1] main_until_first_run_size [OF fr] dg
  from fr show ?thesis
  proof (cases rule: main_after_first_run)
    case null_ctx2
    with ctx2_size show ?thesis by (simp add: ab)
  next
    case (mismatch c2)
    then show ?thesis by (simp add: ab)
  next
    case (null_file c2)
    with ctx_size ctx2_size differ show ?thesis by (simp add: ab)
  next
    case (short_read c2 ret)
    with ctx_size ctx2_size differ show ?thesis by (simp add: ab)
  next
    case (restored c2 mem)
    let ?s2 = "s\<lparr>log := log s @ [Llama_free, Llama_init_from_file Ctx2, Fopen_rb True,
                                 Llama_get_state_size Ctx2 (state_size s),
                                 Fread (state_size s) (state_size s),
                                 Llama_set_state_data mem, Fclose],
                state_mem := mem,
                last_n_tokens_data := last_n_tokens_data_saved s,
                n_past := n_past_saved s\<rparr>"
    from restored have m: "main h api argv = second_run api params (llama_set_state_data api c2 mem, ?s2)"
      by (simp add: main_def)
    from second_run_shape [of api params "llama_set_state_data api c2 mem" ?s2] obtain evs where
      evs: "trace (main h api argv) = log ?s2 @ evs" "list_all (run_event Ctx2) evs"
      by (auto simp: m)
    from ctx_size ctx2_size differ evs(1)
    show ?thesis by (simp add: ab run_event_mem [OF evs(2)])
  qed
qed

text \<open>An engine whose fresh context reports one byte and whose evaluated context reports two.\<close>

theorem size_mismatch_rejected_witness:
  "Llama_get_state_size Ctx 2 \<in> set (trace (main toy_host drift_api []))
   \<and> Llama_get_state_size Ctx2 1 \<in> set (trace (main toy_host drift_api []))
   \<and> status (main toy_host drift_api []) = Returned 1
   \<and> diagnostics (trace (main toy_host drift_api []))
       = [newline @ ''main : failed to validate state size'' @ newline]
   \<and> (\<forall>n k. Fread n k \<notin> set (trace (main toy_host drift_api [])))
   \<and> (\<forall>b. Llama_set_state_data b \<notin> set (trace (main toy_host drift_api [])))"
proof -
  have a: "Llama_get_state_size Ctx 2 \<in> set (trace (main toy_host drift_api []))"
    by (simp add: run_eval cong: let_weak_cong prod.case_cong_weak)
  have b: "Llama_get_state_size Ctx2 1 \<in> set (trace (main toy_host drift_api []))"
    by (simp add: run_eval cong: let_weak_cong prod.case_cong_weak)
  from size_mismatch_rejected [OF a b] a b show ?thesis
    by simp
qed

text \<open>
  Claim C4. Short read. When \<^verbatim>\<open>fread\<close> delivers fewer bytes than the state size, the
  program ends with status 1 and the diagnostic of the read, and
  \<^verbatim>\<open>llama_set_state_data\<close> is never called: the partly filled buffer is not applied,
  padded or otherwise used.
\<close>

theorem short_read_rejected:
  assumes rd: "Fread n k \<in> set (trace (main h api argv))"
    and short: "k < n"
  shows "status (main h api argv) = Returned 1
     \<and> diagnostics (trace (main h api argv)) = [newline @ ''main : failed to read state'' @ newline]
     \<and> last (trace (main h api argv)) = Stderr (newline @ ''main : failed to read state'' @ newline)
     \<and> (\<forall>b. Llama_set_state_data b \<notin> set (trace (main h api argv)))
     \<and> Llama_get_state_size Ctx n \<in> set (trace (main h api argv))"
proof (cases "main_until_first_run h api argv")
  case (Inl r)
  from main_until_first_run_Inl [OF Inl] have "list_all first_half_event (trace r)" by simp
  from first_half_mem(1) [OF this] main_early [OF Inl] rd
  show ?thesis by simp
next
  case (Inr v)
  obtain params lparams ctx s where v: "v = (params, lparams, ctx, s)" by (cases v)
  note fr = Inr [unfolded v]
  note fh = main_until_first_run_Inr [OF fr]
  from fh have fh1: "list_all first_half_event (log s)" and dg: "diagnostics (log s) = []"
    by simp_all
  note ab = first_half_mem [OF fh1] main_until_first_run_size [OF fr] dg
  from fr show ?thesis
  proof (cases rule: main_after_first_run)
    case null_ctx2
    with rd short show ?thesis by (simp add: ab)
  next
    case (mismatch c2)
    with rd short show ?thesis by (simp add: ab)
  next
    case (null_file c2)
    with rd short show ?thesis by (simp add: ab)
  next
    case (short_read c2 ret)
    with rd short show ?thesis by (simp add: ab)
  next
    case (restored c2 mem)
    let ?s2 = "s\<lparr>log := log s @ [Llama_free, Llama_init_from_file Ctx2, Fopen_rb True,
                                 Llama_get_state_size Ctx2 (state_size s),
                                 Fread (state_size s) (state_size s),
                                 Llama_set_state_data mem, Fclose],
                state_mem := mem,
                last_n_tokens_data := last_n_tokens_data_saved s,
                n_past := n_past_saved s\<rparr>"
    from restored have m: "main h api argv = second_run api params (llama_set_state_data api c2 mem, ?s2)"
      by (simp add: main_def)
    from second_run_shape [of api params "llama_set_state_data api c2 mem" ?s2] obtain evs where
      evs: "trace (main h api argv) = log ?s2 @ evs" "list_all (run_event Ctx2) evs"
      by (auto simp: m)
    from rd short evs(1)
    show ?thesis by (simp add: ab run_event_mem [OF evs(2)])
  qed
qed

text \<open>A device that delivers no byte on read.\<close>

theorem short_read_rejected_witness:
  "Fread 1 0 \<in> set (trace (main bad_read_host toy_api []))
   \<and> status (main bad_read_host toy_api []) = Returned 1
   \<and> diagnostics (trace (main bad_read_host toy_api []))
       = [newline @ ''main : failed to read state'' @ newline]
   \<and> (\<forall>b. Llama_set_state_data b \<notin> set (trace (main bad_read_host toy_api [])))"
proof -
  have a: "Fread 1 0 \<in> set (trace (main bad_read_host toy_api []))"
    by (simp add: run_eval cong: let_weak_cong prod.case_cong_weak)
  from short_read_rejected [OF a] a show ?thesis
    by simp
qed

text \<open>
  Claim C5 on a device that accepts no byte: \<^verbatim>\<open>fwrite\<close> stores 0 of the 1 bytes,
  nothing is reported, the first prediction run evaluates all its tokens, and the failure
  shows only when the file is read back. When the file cannot be opened for writing, the
  null stream is passed on to \<^verbatim>\<open>fwrite\<close> and no diagnostic is printed.
\<close>

theorem write_failure_unchecked:
  "Fwrite 1 0 \<in> set (trace (main full_disk_host toy_api []))
   \<and> sampled Ctx (trace (main full_disk_host toy_api [])) = [0, 0, 1]
   \<and> evals Ctx (trace (main full_disk_host toy_api []))
       = [([1, 7], 0, 0), ([0], 2, 0), ([0], 3, 0), ([1], 4, 0)]
   \<and> diagnostics (trace (main full_disk_host toy_api []))
       = [newline @ ''main : failed to read state'' @ newline]
   \<and> status (main full_disk_host toy_api []) = Returned 1
   \<and> Fopen_wb False \<in> set (trace (main no_write_host toy_api []))
   \<and> status (main no_write_host toy_api []) = Undefined_behaviour
   \<and> diagnostics (trace (main no_write_host toy_api [])) = []"
  by (simp add: run_eval cong: let_weak_cong prod.case_cong_weak)

text \<open>
  Claim C6 on an engine whose evaluate call fails on the prompt: the result of the call
  of line 58 is not looked at, the position counter advances by the two prompt tokens,
  both prediction runs are evaluated from position 2, and the program returns 0 without a
  diagnostic.
\<close>

theorem prompt_failure_unchecked:
  "evals Ctx (trace (main toy_host prompt_fail_api []))
     = [([1, 7], 0, 1), ([0], 2, 0), ([0], 3, 0), ([1], 4, 0)]
   \<and> evals Ctx2 (trace (main toy_host prompt_fail_api []))
     = [([0], 2, 0), ([0], 3, 0), ([1], 4, 0)]
   \<and> tokens_at main_until_checkpoint toy_host prompt_fail_api []
     = Some ([0, 0, 1, 7], 2, [0, 0, 1, 7], 2)
   \<and> diagnostics (trace (main toy_host prompt_fail_api [])) = []
   \<and> status (main toy_host prompt_fail_api []) = Returned 0"
  by (simp add: run_eval cong: let_weak_cong prod.case_cong_weak)

text \<open>
  Claim C7. The loop of lines 90-92 starts from the empty vector in each step and builds
  one entry per vocabulary entry, in vocabulary order: entry \<open>i\<close> has token id \<open>i\<close>, score
  \<open>logits[i]\<close> and probability placeholder zero, and the number of entries is the
  vocabulary size. A generation step on a context whose vocabulary size is not negative
  hands exactly this array, with its size and marked unsorted, to \<^verbatim>\<open>llama_sample_token\<close>.
  On a context that reports a negative vocabulary size there is no candidate array: the
  step stops the program at \<^verbatim>\<open>reserve\<close> (line 87, line 145), before the loop and before
  the sampler is called. A step that completes leaves the state buffer and the file as
  they were: the candidates are not stored anywhere.
\<close>

theorem build_candidates:
  "populate_candidates logits n_vocab 0 [] =
     map (\<lambda>i. \<lparr>id_td = int i, logit_td = logits i, p_td = 0\<rparr>) [0..<nat n_vocab]
   \<and> length (populate_candidates logits n_vocab 0 []) = nat n_vocab
   \<and> (0 \<le> llama_n_vocab api ctx \<longrightarrow>
        Llama_sample_token w
          \<lparr>data_arr = map (\<lambda>i. \<lparr>id_td = int i, logit_td = llama_get_logits api ctx i, p_td = 0\<rparr>)
                        [0..<nat (llama_n_vocab api ctx)],
           size_arr = nat (llama_n_vocab api ctx), sorted_arr = False\<rparr>
          (fst (llama_sample_token api ctx
             \<lparr>data_arr = map (\<lambda>i. \<lparr>id_td = int i, logit_td = llama_get_logits api ctx i, p_td = 0\<rparr>)
                        [0..<nat (llama_n_vocab api ctx)],
              size_arr = nat (llama_n_vocab api ctx), sorted_arr = False\<rparr>))
        \<in> set (trace_of (generation_step api params w (ctx, s))))
   \<and> (llama_n_vocab api ctx < 0 \<longrightarrow>
        generation_step api params w (ctx, s) = Inl \<lparr>status = Aborted, trace = log s\<rparr>)
   \<and> (case generation_step api params w (ctx, s) of
         Inl r \<Rightarrow> True
       | Inr (ctx', s') \<Rightarrow> state_mem s' = state_mem s \<and> dump_state_bin s' = dump_state_bin s)"
proof (intro conjI impI)
  show "populate_candidates logits n_vocab 0 [] =
     map (\<lambda>i. \<lparr>id_td = int i, logit_td = logits i, p_td = 0\<rparr>) [0..<nat n_vocab]"
    by (simp add: populate_candidates_acc)
  show "length (populate_candidates logits n_vocab 0 []) = nat n_vocab"
    by (simp add: populate_candidates_acc)
  show "Llama_sample_token w
        \<lparr>data_arr = map (\<lambda>i. \<lparr>id_td = int i, logit_td = llama_get_logits api ctx i, p_td = 0\<rparr>)
                      [0..<nat (llama_n_vocab api ctx)],
         size_arr = nat (llama_n_vocab api ctx), sorted_arr = False\<rparr>
        (fst (llama_sample_token api ctx
           \<lparr>data_arr = map (\<lambda>i. \<lparr>id_td = int i, logit_td = llama_get_logits api ctx i, p_td = 0\<rparr>)
                      [0..<nat (llama_n_vocab api ctx)],
            size_arr = nat (llama_n_vocab api ctx), sorted_arr = False\<rparr>))
      \<in> set (trace_of (generation_step api params w (ctx, s)))"
    if "0 \<le> llama_n_vocab api ctx"
    using that
    by (simp add: populate_candidates_acc generation_step_def trace_of_def Let_def split: prod.splits)
  show "generation_step api params w (ctx, s) = Inl \<lparr>status = Aborted, trace = log s\<rparr>"
    if "llama_n_vocab api ctx < 0"
    using that by (simp add: generation_step_eq)
  show "case generation_step api params w (ctx, s) of
         Inl r \<Rightarrow> True
       | Inr (ctx', s') \<Rightarrow> state_mem s' = state_mem s \<and> dump_state_bin s' = dump_state_bin s"
    by (simp add: generation_step_eq)
qed

text \<open>
  The first step of the small engine after the prompt, and the first step of the second
  run of the engine that loses its vocabulary on restore.
\<close>

theorem build_candidates_witness:
  "0 \<le> llama_n_vocab toy_api 8
   \<and> populate_candidates (llama_get_logits toy_api 8) 3 0 []
     = [\<lparr>id_td = 0, logit_td = 2, p_td = 0\<rparr>, \<lparr>id_td = 1, logit_td = 1, p_td = 0\<rparr>,
        \<lparr>id_td = 2, logit_td = 0, p_td = 0\<rparr>]
   \<and> length (populate_candidates (llama_get_logits toy_api 8) 3 0 []) = 3
   \<and> Llama_sample_token Ctx
        \<lparr>data_arr = [\<lparr>id_td = 0, logit_td = 2, p_td = 0\<rparr>, \<lparr>id_td = 1, logit_td = 1, p_td = 0\<rparr>,
                     \<lparr>id_td = 2, logit_td = 0, p_td = 0\<rparr>],
         size_arr = 3, sorted_arr = False\<rparr> 0
      \<in> set (trace_of (generation_step toy_api (toy_params 3) Ctx (8, toy_checkpoint)))
   \<and> llama_n_vocab vocab_loss_api 1 < 0
   \<and> generation_step vocab_loss_api (toy_params 3) Ctx2 (1, toy_checkpoint)
       = Inl \<lparr>status = Aborted, trace = log toy_checkpoint\<rparr>"
proof -
  have cands: "map (\<lambda>i. \<lparr>id_td = int i, logit_td = llama_get_logits toy_api 8 i, p_td = 0\<rparr>) [0..<3]
      = [\<lparr>id_td = 0, logit_td = 2, p_td = 0\<rparr>, \<lparr>id_td = 1, logit_td = 1, p_td = 0\<rparr>,
         \<lparr>id_td = 2, logit_td = 0, p_td = 0\<rparr>]"
    by (simp add: toy_api_sel upt_0_3)
  have nv: "llama_n_vocab toy_api 8 = 3"
    by (simp add: toy_api_sel)
  have tok: "fst (llama_sample_token toy_api 8
        \<lparr>data_arr = [\<lparr>id_td = 0, logit_td = 2, p_td = 0\<rparr>, \<lparr>id_td = 1, logit_td = 1, p_td = 0\<rparr>,
                     \<lparr>id_td = 2, logit_td = 0, p_td = 0\<rparr>],
         size_arr = 3, sorted_arr = False\<rparr>) = 0"
    by (simp add: toy_api_sel greedy_def)
  have neg: "llama_n_vocab vocab_loss_api 1 < 0"
    by (simp add: vocab_loss_api_sel)
  from build_candidates [of "llama_get_logits toy_api 8" 3 toy_api 8 Ctx "toy_params 3" toy_checkpoint]
    build_candidates [of "llama_get_logits toy_api 8" 3 vocab_loss_api 1 Ctx2 "toy_params 3" toy_checkpoint]
    neg
  show ?thesis
    by (simp add: cands nv tok)
qed

text \<open>
  Claim C8. The checkpoint's copy of the token history and of the position is a copy by
  value. At the checkpoint the copies equal the live values; at the end of the first
  prediction run the live history has grown by \<^verbatim>\<open>n_predict\<close> tokens after the
  checkpoint's contents and the position by \<^verbatim>\<open>n_predict\<close>, while the copies still
  hold the checkpoint's values; at the restore point (line 137) the live history and
  position are exactly the checkpoint's again.
\<close>

theorem history_copy_independent:
  assumes cp: "tokens_at main_until_checkpoint h api argv = Some (hist0, n0, saved0, nsaved0)"
  shows "saved0 = hist0 \<and> nsaved0 = n0
     \<and> (\<forall>hist1 n1 saved1 nsaved1.
          tokens_at main_until_first_run h api argv = Some (hist1, n1, saved1, nsaved1) \<longrightarrow>
            saved1 = hist0 \<and> nsaved1 = n0
            \<and> length hist1 = length hist0 + nat (effective_n_predict h argv)
            \<and> take (length hist0) hist1 = hist0
            \<and> n1 = n0 + effective_n_predict h argv)
     \<and> (\<forall>hist2 n2 saved2 nsaved2.
          tokens_at main_until_restore h api argv = Some (hist2, n2, saved2, nsaved2) \<longrightarrow>
            hist2 = hist0 \<and> n2 = n0 \<and> saved2 = hist0 \<and> nsaved2 = n0)"
proof -
  from cp obtain params lparams c0 s0 where
    cp': "main_until_checkpoint h api argv = Inr (params, lparams, c0, s0)" and
    v0: "hist0 = last_n_tokens_data s0" "n0 = n_past s0"
      "saved0 = last_n_tokens_data_saved s0" "nsaved0 = n_past_saved s0"
    by (auto simp: tokens_at_def split: sum.splits)
  from main_until_checkpoint_Inr [OF cp'] have
    eq0: "last_n_tokens_data_saved s0 = last_n_tokens_data s0" "n_past_saved s0 = n_past s0"
    and np0: "0 \<le> n_predict params"
    by auto
  from cp' have np: "n_predict params = effective_n_predict h argv"
    by (auto simp: main_until_checkpoint_def split: sum.splits dest: main_setup_n_predict)
  have run1: "saved1 = hist0 \<and> nsaved1 = n0
            \<and> length hist1 = length hist0 + nat (effective_n_predict h argv)
            \<and> take (length hist0) hist1 = hist0
            \<and> n1 = n0 + effective_n_predict h argv"
    if "tokens_at main_until_first_run h api argv = Some (hist1, n1, saved1, nsaved1)"
    for hist1 n1 saved1 nsaved1
  proof -
    from that cp' obtain c1 s1 where
      fr: "first_run api params (c0, s0) = Inr (c1, s1)" and
      v1: "hist1 = last_n_tokens_data s1" "n1 = n_past s1"
        "saved1 = last_n_tokens_data_saved s1" "nsaved1 = n_past_saved s1"
      by (auto simp: tokens_at_def main_until_first_run_def split: sum.splits)
    from first_run_Inr [OF fr] np0 show ?thesis
      by (auto simp: v0 v1 eq0 frame_eq_def np)
  qed
  have run2: "hist2 = hist0 \<and> n2 = n0 \<and> saved2 = hist0 \<and> nsaved2 = n0"
    if "tokens_at main_until_restore h api argv = Some (hist2, n2, saved2, nsaved2)"
    for hist2 n2 saved2 nsaved2
  proof -
    from that obtain p l c1 s1 c2 s2 where
      fr: "main_until_first_run h api argv = Inr (p, l, c1, s1)" and
      ld: "main_load h api p l (c1, s1) = Inr (c2, s2)" and
      v2: "hist2 = last_n_tokens_data s2" "n2 = n_past s2"
        "saved2 = last_n_tokens_data_saved s2" "nsaved2 = n_past_saved s2"
      by (auto simp: tokens_at_def main_until_restore_def split: sum.splits)
    from fr have "tokens_at main_until_first_run h api argv
        = Some (last_n_tokens_data s1, n_past s1, last_n_tokens_data_saved s1, n_past_saved s1)"
      by (simp add: tokens_at_def)
    from run1 [OF this] have s1: "last_n_tokens_data_saved s1 = hist0" "n_past_saved s1 = n0"
      by simp_all
    from ld have "last_n_tokens_data s2 = last_n_tokens_data_saved s1"
      "n_past s2 = n_past_saved s1"
      "last_n_tokens_data_saved s2 = last_n_tokens_data_saved s1"
      "n_past_saved s2 = n_past_saved s1"
      by (auto simp: main_load_def Let_def split: option.splits if_splits)
    with s1 v2 show ?thesis by simp
  qed
  from v0 eq0 run1 run2 show ?thesis by blast
qed

text \<open>On the small engine: four tokens at the checkpoint, seven after the first run, four again.\<close>

theorem history_copy_independent_witness:
  "tokens_at main_until_checkpoint toy_host toy_api [] = Some ([0, 0, 1, 7], 2, [0, 0, 1, 7], 2)
   \<and> tokens_at main_until_first_run toy_host toy_api []
       = Some ([0, 0, 1, 7, 0, 0, 1], 5, [0, 0, 1, 7], 2)
   \<and> tokens_at main_until_restore toy_host toy_api [] = Some ([0, 0, 1, 7], 2, [0, 0, 1, 7], 2)
   \<and> effective_n_predict toy_host [] = 3"
proof -
  have cp: "tokens_at main_until_checkpoint toy_host toy_api [] = Some ([0, 0, 1, 7], 2, [0, 0, 1, 7], 2)"
    by (simp add: run_eval cong: let_weak_cong prod.case_cong_weak)
  have fr: "tokens_at main_until_first_run toy_host toy_api []
              = Some ([0, 0, 1, 7, 0, 0, 1], 5, [0, 0, 1, 7], 2)"
    by (simp add: run_eval cong: let_weak_cong prod.case_cong_weak)
  have rs: "tokens_at main_until_restore toy_host toy_api [] = Some ([0, 0, 1, 7], 2, [0, 0, 1, 7], 2)"
    by (simp add: run_eval cong: let_weak_cong prod.case_cong_weak)
  have n: "effective_n_predict toy_host [] = 3"
    by (simp add: effective_n_predict_def parsed_params_def toy_host_sel)
  from history_copy_independent [OF cp] cp fr rs n show ?thesis
    by simp
qed





end
